theory Spec2Isabelle
  imports Complex_Main "HOL-Library.Word" "HOL-Library.Sublist"
begin

section \<open>JavaScript strings\<close>

text \<open>
  A JavaScript string is a sequence of UTF-16 code units. The regular expressions of the
  backend carry no \<^verbatim>\<open>u\<close> flag, so they work on code units; a code unit
  is modelled by its number. String literals of the source are written through \<open>js\<close>.
\<close>

type_synonym jsstring = "nat list"

definition js :: "string \<Rightarrow> jsstring" where
  "js s = map of_char s"

text \<open>
  The class \<^verbatim>\<open>\s\<close> of ECMAScript (WhiteSpace and LineTerminator), which is
  also what \<^verbatim>\<open>String.prototype.trim\<close> removes: TAB, LF, VT, FF, CR, SP, NBSP,
  U+1680, U+2000..U+200A, U+2028, U+2029, U+202F, U+205F, U+3000, U+FEFF.
\<close>

definition is_space :: "nat \<Rightarrow> bool" where
  "is_space c = (c \<in> {9, 10, 11, 12, 13, 32, 160, 5760, 8232, 8233, 8239, 8287, 12288, 65279}
                 \<or> (8192 \<le> c \<and> c \<le> 8202))"

definition is_upper :: "nat \<Rightarrow> bool" where
  "is_upper c = (65 \<le> c \<and> c \<le> 90)"

definition is_lower :: "nat \<Rightarrow> bool" where
  "is_lower c = (97 \<le> c \<and> c \<le> 122)"

definition is_digit :: "nat \<Rightarrow> bool" where
  "is_digit c = (48 \<le> c \<and> c \<le> 57)"

text \<open>\<^verbatim>\<open>String.prototype.trim\<close>.\<close>

definition trim :: "jsstring \<Rightarrow> jsstring" where
  "trim s = rev (dropWhile is_space (rev (dropWhile is_space s)))"

text \<open>\<^verbatim>\<open>String.prototype.includes\<close>: the argument occurs as a contiguous run.\<close>

fun str_includes :: "jsstring \<Rightarrow> jsstring \<Rightarrow> bool" where
  "str_includes [] sub = (sub = [])"
| "str_includes (c # cs) sub = (prefix sub (c # cs) \<or> str_includes cs sub)"

text \<open>\<^verbatim>\<open>String.prototype.endsWith\<close>.\<close>

definition endsWith :: "jsstring \<Rightarrow> jsstring \<Rightarrow> bool" where
  "endsWith s suf = suffix suf s"

section \<open>Name Normalizer: \<^verbatim>\<open>cleanCardName\<close> (sam-backend/src/index.js)\<close>

text \<open>
  \<^verbatim>\<open>.replace(/\s+/g, ' ')\<close>: every maximal run of white space becomes one space.
  The flag says whether the previous code unit was white space, that is, whether the
  current run has already been replaced.
\<close>

fun collapse_ws :: "bool \<Rightarrow> jsstring \<Rightarrow> jsstring" where
  "collapse_ws inrun [] = []"
| "collapse_ws inrun (c # cs) =
     (if is_space c then (if inrun then collapse_ws True cs else 32 # collapse_ws True cs)
      else c # collapse_ws False cs)"

text \<open>
  The class \<^verbatim>\<open>[^a-zA-Z0-9\s\-']\<close> is what the second replace deletes; \<open>kept\<close>
  is its complement.
\<close>

definition kept :: "nat \<Rightarrow> bool" where
  "kept c = (is_lower c \<or> is_upper c \<or> is_digit c \<or> is_space c \<or> c = 45 \<or> c = 39)"

text \<open>
  \<^verbatim>\<open>
  function cleanCardName(text) {
    if (!text) return '';
    return text.trim().replace(/\s+/g, ' ').replace(/[^a-zA-Z0-9\s\-']/g, '').substring(0, 50);
  }
  \<close>
  on a string argument (the empty string is the falsy string).
\<close>

definition cleanCardName :: "jsstring \<Rightarrow> jsstring" where
  "cleanCardName text =
     (if text = [] then []
      else take 50 (filter kept (collapse_ws False (trim text))))"

text \<open>The characters a normalized name may contain: letters, digits, space, hyphen, apostrophe.\<close>

definition allowed_char :: "nat \<Rightarrow> bool" where
  "allowed_char c = (is_lower c \<or> is_upper c \<or> is_digit c \<or> c = 32 \<or> c = 45 \<or> c = 39)"

section \<open>Image Validator: \<^verbatim>\<open>validateImage\<close> (sam-backend/src/index.js)\<close>

text \<open>
  A thrown \<^verbatim>\<open>Error\<close> is modelled by its message, and a computation that may throw
  returns \<open>Inl message\<close> or \<open>Inr value\<close>.
\<close>

type_synonym 'a thrown_or = "jsstring + 'a"

type_synonym byte = "8 word"

definition EXPECTED_WIDTH :: nat where
  "EXPECTED_WIDTH = 250"

definition EXPECTED_HEIGHT :: nat where
  "EXPECTED_HEIGHT = 120"

text \<open>
  \<^verbatim>\<open>Buffer.prototype.readUInt32BE\<close> of Node: it throws a RangeError when the four
  bytes at the offset are not all inside the buffer, and otherwise returns
  \<^verbatim>\<open>first * 2 ** 24 + this[++offset] * 2 ** 16 + this[++offset] * 2 ** 8 + last\<close>.
\<close>

definition readUInt32BE :: "byte list \<Rightarrow> nat \<Rightarrow> nat thrown_or" where
  "readUInt32BE buffer offset =
     (if offset + 3 < length buffer
      then Inr (unat (buffer ! offset) * 2 ^ 24 + unat (buffer ! (offset + 1)) * 2 ^ 16
                + unat (buffer ! (offset + 2)) * 2 ^ 8 + unat (buffer ! (offset + 3)))
      else Inl (js ''Attempt to access memory outside buffer bounds''))"

text \<open>
  The body of the \<^verbatim>\<open>try\<close> block of \<^verbatim>\<open>validateImage\<close>.
  \<^verbatim>\<open>Buffer.from(base64Image, 'base64')\<close> is a function of the platform: it is the
  parameter \<open>Buffer_from\<close>, which returns the decoded bytes or throws.
  \<^verbatim>\<open>
    const buffer = Buffer.from(base64Image, 'base64');
    if (buffer.length < 24 || buffer[0] !== 0x89 || buffer[1] !== 0x50 ||
        buffer[2] !== 0x4E || buffer[3] !== 0x47) {
      return false;
    }
    const width = buffer.readUInt32BE(16);
    const height = buffer.readUInt32BE(20);
    return width === EXPECTED_WIDTH && height === EXPECTED_HEIGHT;
  \<close>
\<close>

definition validateImage_try :: "('p \<Rightarrow> byte list thrown_or) \<Rightarrow> 'p \<Rightarrow> bool thrown_or" where
  "validateImage_try Buffer_from base64Image =
     (case Buffer_from base64Image of
        Inl e \<Rightarrow> Inl e
      | Inr buffer \<Rightarrow>
          if length buffer < 24 then Inr False
          else if buffer ! 0 \<noteq> 0x89 then Inr False
          else if buffer ! 1 \<noteq> 0x50 then Inr False
          else if buffer ! 2 \<noteq> 0x4E then Inr False
          else if buffer ! 3 \<noteq> 0x47 then Inr False
          else (case readUInt32BE buffer 16 of
                  Inl e \<Rightarrow> Inl e
                | Inr width \<Rightarrow>
                    (case readUInt32BE buffer 20 of
                       Inl e \<Rightarrow> Inl e
                     | Inr height \<Rightarrow> Inr (width = EXPECTED_WIDTH \<and> height = EXPECTED_HEIGHT))))"

text \<open>\<^verbatim>\<open>try { ... } catch { return false; }\<close>\<close>

definition validateImage :: "('p \<Rightarrow> byte list thrown_or) \<Rightarrow> 'p \<Rightarrow> bool" where
  "validateImage Buffer_from base64Image =
     (case validateImage_try Buffer_from base64Image of Inl e \<Rightarrow> False | Inr r \<Rightarrow> r)"

text \<open>
  A header as the validator wants it: 24 bytes that start with the four magic bytes
  \<^verbatim>\<open>89 50 4E 47\<close> and carry the big-endian width 250 and height 120 at the offsets
  16 and 20; the bytes from 4 to 15 are not looked at.
\<close>

definition png_header_250x120 :: "byte list" where
  "png_header_250x120 =
     [0x89, 0x50, 0x4E, 0x47, 0x0D, 0x0A, 0x1A, 0x0A, 0, 0, 0, 0x0D, 0x49, 0x48, 0x44, 0x52,
      0, 0, 0, 250, 0, 0, 0, 120]"

section \<open>Optional values and truthiness\<close>

text \<open>
  A property that may be missing (\<^verbatim>\<open>undefined\<close> or \<^verbatim>\<open>null\<close>) is an option.
  A string is truthy when it is present and not empty; \<open>js_or\<close> is \<^verbatim>\<open>a || b\<close>.
\<close>

definition truthy :: "jsstring option \<Rightarrow> bool" where
  "truthy v = (case v of None \<Rightarrow> False | Some s \<Rightarrow> s \<noteq> [])"

definition js_or :: "jsstring option \<Rightarrow> jsstring option \<Rightarrow> jsstring option" where
  "js_or a b = (if truthy a then a else b)"

text \<open>The decimal digits of a number, as a template literal prints it.\<close>

fun show_nat :: "nat \<Rightarrow> jsstring" where
  "show_nat n = (if n < 10 then [48 + n] else show_nat (n div 10) @ [48 + n mod 10])"

declare show_nat.simps [simp del]

text \<open>\<^verbatim>\<open>Response.ok\<close>: the status is in the range 200 to 299.\<close>

definition resp_ok :: "nat \<Rightarrow> bool" where
  "resp_ok status = (200 \<le> status \<and> status \<le> 299)"

section \<open>The process and its outbound calls\<close>

text \<open>
  The state of the backend process: the clock that \<^verbatim>\<open>Date.now()\<close> reads (in
  milliseconds), the module variable \<^verbatim>\<open>lastScryfallCall\<close>, and the log of the
  outbound requests issued so far, each with the time at which it was issued. The clock
  only moves forward, and the invocations of one process run one after the other.
\<close>

datatype outbound = GeminiCall int jsstring | ScryfallCall int jsstring

record world =
  clock :: int
  lastScryfallCall :: int
  calls :: "outbound list"

text \<open>The process at its start: \<^verbatim>\<open>let lastScryfallCall = 0;\<close> and nothing sent yet.\<close>

definition start_world :: "int \<Rightarrow> world" where
  "start_world t0 = \<lparr>clock = t0, lastScryfallCall = 0, calls = []\<rparr>"

definition SCRYFALL_RATE_LIMIT_MS :: int where
  "SCRYFALL_RATE_LIMIT_MS = 100"

text \<open>
  \<^verbatim>\<open>
  async function rateLimitScryfall() {
    const now = Date.now();
    const elapsed = now - lastScryfallCall;
    if (elapsed < SCRYFALL_RATE_LIMIT_MS) {
      await new Promise(resolve => setTimeout(resolve, SCRYFALL_RATE_LIMIT_MS - elapsed));
    }
    lastScryfallCall = Date.now();
  }
  \<close>
  The timer and \<^verbatim>\<open>Date.now()\<close> run on different clocks of the platform: \<open>late\<close>
  is the number of milliseconds by which the timer fires later than asked, as
  \<^verbatim>\<open>Date.now()\<close> reads it, and it is negative for a timer that fires early. The
  clock itself never runs backwards. The source waits once and does not look at the
  clock again before it records the time stamp.
\<close>

definition rateLimitScryfall :: "int \<Rightarrow> world \<Rightarrow> world" where
  "rateLimitScryfall late w =
     (let now = clock w;
          elapsed = now - lastScryfallCall w;
          w1 = (if elapsed < SCRYFALL_RATE_LIMIT_MS
                then w\<lparr>clock := clock w + max 0 ((SCRYFALL_RATE_LIMIT_MS - elapsed) + late)\<rparr>
                else w)
      in w1\<lparr>lastScryfallCall := clock w1\<rparr>)"

section \<open>Card Resolver: \<^verbatim>\<open>lookupCard\<close> (sam-backend/src/index.js)\<close>

text \<open>The part of a card object of the card database that the resolver reads.\<close>

record image_uris =
  normal :: "jsstring option"
  large :: "jsstring option"

record face =
  face_image_uris :: "image_uris option"
  face_oracle_text :: "jsstring option"
  face_mana_cost :: "jsstring option"

record scryfall_card =
  c_name :: "jsstring option"
  c_image_uris :: "image_uris option"
  c_card_faces :: "face list option"
  c_set :: "jsstring option"
  c_set_name :: "jsstring option"
  c_type_line :: "jsstring option"
  c_oracle_text :: "jsstring option"
  c_mana_cost :: "jsstring option"
  c_rarity :: "jsstring option"

text \<open>
  The card record the resolver returns. The fields \<^verbatim>\<open>set\<close> and \<^verbatim>\<open>type\<close> of the
  source are \<open>cardSet\<close> and \<open>cardType\<close> here. A field is \<open>None\<close> when the record as
  serialized by \<^verbatim>\<open>JSON.stringify\<close> does not carry it.
\<close>

record card =
  name :: "jsstring option"
  imageUrl :: "jsstring option"
  cardSet :: "jsstring option"
  setName :: "jsstring option"
  cardType :: "jsstring option"
  oracleText :: "jsstring option"
  manaCost :: "jsstring option"
  rarity :: "jsstring option"
  backImageUrl :: "jsstring option"

text \<open>\<^verbatim>\<open>c.card_faces?.[i]\<close>\<close>

definition face_at :: "face list option \<Rightarrow> nat \<Rightarrow> face option" where
  "face_at faces i =
     (case faces of None \<Rightarrow> None
      | Some fs \<Rightarrow> if i < length fs then Some (fs ! i) else None)"

text \<open>
  The lines of \<^verbatim>\<open>lookupCard\<close> after the response has been read:
  \<^verbatim>\<open>
  const isDoubleFaced = c.card_faces && !c.image_uris;
  const imageUris = c.image_uris || c.card_faces?.[0]?.image_uris;
  const result = {
    name: c.name, imageUrl: imageUris?.normal || imageUris?.large,
    set: c.set, setName: c.set_name, type: c.type_line,
    oracleText: c.oracle_text || c.card_faces?.[0]?.oracle_text,
    manaCost: c.mana_cost || c.card_faces?.[0]?.mana_cost, rarity: c.rarity
  };
  if (isDoubleFaced && c.card_faces[1]?.image_uris) {
    result.backImageUrl = c.card_faces[1].image_uris.normal || c.card_faces[1].image_uris.large;
  }
  return result;
  \<close>
\<close>

definition card_of_scryfall :: "scryfall_card \<Rightarrow> card" where
  "card_of_scryfall c =
     (let isDoubleFaced = (c_card_faces c \<noteq> None \<and> c_image_uris c = None);
          imageUris = (case c_image_uris c of
                         Some u \<Rightarrow> Some u
                       | None \<Rightarrow> Option.bind (face_at (c_card_faces c) 0) face_image_uris);
          result = \<lparr>name = c_name c,
                    imageUrl = js_or (Option.bind imageUris normal) (Option.bind imageUris large),
                    cardSet = c_set c, setName = c_set_name c, cardType = c_type_line c,
                    oracleText = js_or (c_oracle_text c)
                                   (Option.bind (face_at (c_card_faces c) 0) face_oracle_text),
                    manaCost = js_or (c_mana_cost c)
                                 (Option.bind (face_at (c_card_faces c) 0) face_mana_cost),
                    rarity = c_rarity c,
                    backImageUrl = None\<rparr>
      in if isDoubleFaced
         then (case Option.bind (face_at (c_card_faces c) 1) face_image_uris of
                 None \<Rightarrow> result
               | Some u \<Rightarrow> result\<lparr>backImageUrl := js_or (normal u) (large u)\<rparr>)
         else result)"

text \<open>
  What the card database answers to one request: the fetch fails with a message, or a
  response arrives with its status and what \<^verbatim>\<open>resp.json()\<close> gives (a card object,
  or a throw).
\<close>

datatype scryfall_reply =
  ScryfallFetchFailed jsstring
| ScryfallResponse nat "scryfall_card thrown_or"

text \<open>
  \<^verbatim>\<open>
  if (!resp.ok) {
    if (resp.status === 404) throw new Error(`Card not found: "${cardName}"`);
    throw new Error(`Scryfall API error: ${resp.status}`);
  }
  const c = await resp.json();
  \<close>
\<close>

definition lookupCard_result :: "jsstring \<Rightarrow> scryfall_reply \<Rightarrow> card thrown_or" where
  "lookupCard_result cardName reply =
     (case reply of
        ScryfallFetchFailed m \<Rightarrow> Inl m
      | ScryfallResponse status json \<Rightarrow>
          if \<not> resp_ok status
          then (if status = 404 then Inl (js ''Card not found: \"'' @ cardName @ js ''\"'')
                else Inl (js ''Scryfall API error: '' @ show_nat status))
          else (case json of Inl m \<Rightarrow> Inl m | Inr c \<Rightarrow> Inr (card_of_scryfall c)))"

section \<open>OCR Resolver: \<^verbatim>\<open>performOCR\<close> (sam-backend/src/index.js)\<close>

text \<open>
  What the vision service answers: the fetch fails, or a response arrives with its
  status, its body as text, and what reading
  \<^verbatim>\<open>data.candidates?.[0]?.content?.parts\<close> from \<^verbatim>\<open>resp.json()\<close> gives: a throw,
  nothing, or the list of the parts, each with its optional text.
\<close>

datatype gemini_reply =
  GeminiFetchFailed jsstring
| GeminiResponse nat jsstring "jsstring option list option thrown_or"

text \<open>\<^verbatim>\<open>Array.prototype.join(' ')\<close>\<close>

fun join_space :: "jsstring list \<Rightarrow> jsstring" where
  "join_space [] = []"
| "join_space [x] = x"
| "join_space (x # y # ys) = x @ 32 # join_space (y # ys)"

text \<open>
  \<^verbatim>\<open>
  if (!resp.ok) {
    const errorBody = await resp.text();
    if (resp.status === 401 || resp.status === 403) throw new Error('Invalid Gemini API key');
    if (resp.status === 429) throw new Error('Rate limit exceeded');
    throw new Error(`Gemini API error: ${resp.status} - ${errorBody}`);
  }
  const data = await resp.json();
  const text = data.candidates?.[0]?.content?.parts?.filter(p => p.text).map(p => p.text).join(' ').trim();
  return (!text || text === 'NONE') ? null : text;
  \<close>
\<close>

definition performOCR_result :: "gemini_reply \<Rightarrow> jsstring option thrown_or" where
  "performOCR_result reply =
     (case reply of
        GeminiFetchFailed m \<Rightarrow> Inl m
      | GeminiResponse status errorBody json \<Rightarrow>
          if \<not> resp_ok status
          then (if status = 401 \<or> status = 403 then Inl (js ''Invalid Gemini API key'')
                else if status = 429 then Inl (js ''Rate limit exceeded'')
                else Inl (js ''Gemini API error: '' @ show_nat status @ js '' - '' @ errorBody))
          else (case json of
                  Inl m \<Rightarrow> Inl m
                | Inr parts \<Rightarrow>
                    (let text = map_option
                           (\<lambda>ps. trim (join_space (map (\<lambda>p. case p of Some t \<Rightarrow> t | None \<Rightarrow> [])
                                                     (filter truthy ps)))) parts
                     in if \<not> truthy text \<or> text = Some (js ''NONE'') then Inr None
                        else Inr text)))"

section \<open>The environment of one invocation\<close>

text \<open>
  What the platform and the two services do during one invocation of the handler: the
  base64 decoder, the configured credential, the answers of the services to a request,
  and the durations (how late the rate limiter's timer fires, negative when it fires
  early, and how long each request takes).
\<close>

record env =
  Buffer_from :: "jsstring \<Rightarrow> byte list thrown_or"
  GEMINI_API_KEY :: "jsstring option"
  gemini :: "jsstring \<Rightarrow> jsstring \<Rightarrow> gemini_reply"
  scryfall :: "jsstring \<Rightarrow> scryfall_reply"
  timer_late :: int
  gemini_ms :: nat
  scryfall_ms :: nat

text \<open>
  \<^verbatim>\<open>performOCR(base64Image, apiKey)\<close>: one request to the vision service, logged with
  the time at which it is issued.
\<close>

definition performOCR :: "env \<Rightarrow> jsstring \<Rightarrow> jsstring \<Rightarrow> world \<Rightarrow> jsstring option thrown_or \<times> world" where
  "performOCR en base64Image apiKey w =
     (performOCR_result (gemini en apiKey base64Image),
      w\<lparr>clock := clock w + int (gemini_ms en),
        calls := calls w @ [GeminiCall (clock w) base64Image]\<rparr>)"

text \<open>
  \<^verbatim>\<open>
  async function lookupCard(cardName) {
    await rateLimitScryfall();
    const resp = await fetch(`${SCRYFALL_API_BASE}/cards/named?fuzzy=${encodeURIComponent(cardName)}`);
    ...
  \<close>
  The request is issued when the rate limiter returns, that is, at the time the limiter
  has just recorded.
\<close>

definition lookupCard :: "env \<Rightarrow> jsstring \<Rightarrow> world \<Rightarrow> card thrown_or \<times> world" where
  "lookupCard en cardName w =
     (let w1 = rateLimitScryfall (timer_late en) w
      in (lookupCard_result cardName (scryfall en cardName),
          w1\<lparr>clock := clock w1 + int (scryfall_ms en),
             calls := calls w1 @ [ScryfallCall (clock w1) cardName]\<rparr>))"

section \<open>The backend handler (sam-backend/src/index.js)\<close>

text \<open>
  A property of the parsed request body: missing, a string, or a value of another type
  (with its truthiness).
\<close>

datatype field = Undefined | Str jsstring | NonString bool

record request_body =
  name_field :: field
  image_field :: field

text \<open>
  The event: \<^verbatim>\<open>event.path\<close>, \<^verbatim>\<open>event.requestContext?.http?.path\<close>, and what
  \<^verbatim>\<open>JSON.parse(event.body || '{}')\<close> gives: a throw with its message (also when the
  parsed value is \<^verbatim>\<open>null\<close>, whose properties cannot be read), or the two properties
  the handler reads.
\<close>

record event =
  ev_path :: "jsstring option"
  ev_http_path :: "jsstring option"
  ev_body :: "request_body thrown_or"

text \<open>The JSON body of a response, and the response (its constant headers left out).\<close>

datatype resp_body =
  Found card "jsstring option"
| NotFound
| ErrorMsg jsstring

record response =
  statusCode :: nat
  body :: resp_body

text \<open>\<^verbatim>\<open>const path = event.path || event.requestContext?.http?.path || '';\<close>\<close>

definition path_of :: "event \<Rightarrow> jsstring" where
  "path_of ev = (case js_or (js_or (ev_path ev) (ev_http_path ev)) (Some []) of
                   Some p \<Rightarrow> p | None \<Rightarrow> [])"

text \<open>The class \<^verbatim>\<open>\w\<close>.\<close>

definition is_word_char :: "nat \<Rightarrow> bool" where
  "is_word_char c = (is_lower c \<or> is_upper c \<or> is_digit c \<or> c = 95)"

text \<open>
  \<^verbatim>\<open>body.image.replace(/^data:image\/\w+;base64,/, '')\<close>. The run of \<^verbatim>\<open>\w\<close> is
  followed by a semicolon, which is no word character, so the expression matches only
  with the longest run.
\<close>

definition strip_data_url :: "jsstring \<Rightarrow> jsstring" where
  "strip_data_url s =
     (if prefix (js ''data:image/'') s
      then (let rest = drop 11 s;
                after = dropWhile is_word_char rest
            in if takeWhile is_word_char rest \<noteq> [] \<and> prefix (js '';base64,'') after
               then drop 8 after else s)
      else s)"

definition badRequest :: response where
  "badRequest = \<lparr>statusCode = 400, body = ErrorMsg (js ''Bad request'')\<rparr>"

definition found_false :: response where
  "found_false = \<lparr>statusCode = 200, body = NotFound\<rparr>"

text \<open>The \<^verbatim>\<open>/lookup-by-name\<close> branch of the \<^verbatim>\<open>try\<close> block.\<close>

definition lookup_by_name :: "env \<Rightarrow> request_body \<Rightarrow> world \<Rightarrow> response thrown_or \<times> world" where
  "lookup_by_name en b w =
     (case name_field b of
        Undefined \<Rightarrow> (Inr badRequest, w)
      | NonString t \<Rightarrow>
          if \<not> t then (Inr badRequest, w)
          else (Inl (js ''text.trim is not a function''), w)
      | Str n \<Rightarrow>
          if n = [] then (Inr badRequest, w)
          else (let cardName = cleanCardName n
                in if cardName = [] then (Inr found_false, w)
                   else (case lookupCard en cardName w of
                           (Inl m, w') \<Rightarrow> (Inl m, w')
                         | (Inr c, w') \<Rightarrow>
                             (Inr \<lparr>statusCode = 200, body = Found c None\<rparr>, w'))))"

text \<open>
  The \<^verbatim>\<open>/lookup\<close> branch, from the validated payload on:
  \<^verbatim>\<open>
  const apiKey = process.env.GEMINI_API_KEY;
  if (!apiKey) return { statusCode: 500, headers, body: JSON.stringify({ error: 'Server config error' }) };
  const ocrText = await performOCR(base64, apiKey);
  if (!ocrText) return { statusCode: 200, headers, body: JSON.stringify({ found: false }) };
  const cardName = cleanCardName(ocrText);
  if (!cardName) return { statusCode: 200, headers, body: JSON.stringify({ found: false }) };
  const card = await lookupCard(cardName);
  return { statusCode: 200, headers, body: JSON.stringify({ found: true, card, detectedName: cardName }) };
  \<close>
\<close>

definition recognize_and_resolve :: "env \<Rightarrow> jsstring \<Rightarrow> world \<Rightarrow> response thrown_or \<times> world" where
  "recognize_and_resolve en base64 w =
     (case GEMINI_API_KEY en of
        None \<Rightarrow> (Inr \<lparr>statusCode = 500, body = ErrorMsg (js ''Server config error'')\<rparr>, w)
      | Some apiKey \<Rightarrow>
          if apiKey = []
          then (Inr \<lparr>statusCode = 500, body = ErrorMsg (js ''Server config error'')\<rparr>, w)
          else (case performOCR en base64 apiKey w of
                  (Inl m, w1) \<Rightarrow> (Inl m, w1)
                | (Inr None, w1) \<Rightarrow> (Inr found_false, w1)
                | (Inr (Some ocrText), w1) \<Rightarrow>
                    if ocrText = [] then (Inr found_false, w1)
                    else (let cardName = cleanCardName ocrText
                          in if cardName = [] then (Inr found_false, w1)
                             else (case lookupCard en cardName w1 of
                                     (Inl m, w2) \<Rightarrow> (Inl m, w2)
                                   | (Inr c, w2) \<Rightarrow>
                                       (Inr \<lparr>statusCode = 200,
                                             body = Found c (Some cardName)\<rparr>, w2)))))"

text \<open>
  The \<^verbatim>\<open>/lookup\<close> branch up to the validation:
  \<^verbatim>\<open>
  if (!body.image) return { statusCode: 400, headers, body: JSON.stringify({ error: 'Missing image' }) };
  const base64 = body.image.replace(/^data:image\/\w+;base64,/, '');
  if (!validateImage(base64)) return { statusCode: 400, headers, body: JSON.stringify({ error: 'Invalid image' }) };
  \<close>
\<close>

definition lookup_by_image :: "env \<Rightarrow> request_body \<Rightarrow> world \<Rightarrow> response thrown_or \<times> world" where
  "lookup_by_image en b w =
     (case image_field b of
        Undefined \<Rightarrow> (Inr \<lparr>statusCode = 400, body = ErrorMsg (js ''Missing image'')\<rparr>, w)
      | NonString t \<Rightarrow>
          if \<not> t then (Inr \<lparr>statusCode = 400, body = ErrorMsg (js ''Missing image'')\<rparr>, w)
          else (Inl (js ''body.image.replace is not a function''), w)
      | Str i \<Rightarrow>
          if i = [] then (Inr \<lparr>statusCode = 400, body = ErrorMsg (js ''Missing image'')\<rparr>, w)
          else (let base64 = strip_data_url i
                in if \<not> validateImage (Buffer_from en) base64
                   then (Inr \<lparr>statusCode = 400, body = ErrorMsg (js ''Invalid image'')\<rparr>, w)
                   else recognize_and_resolve en base64 w))"

text \<open>The \<^verbatim>\<open>try\<close> block of the handler.\<close>

definition handler_try :: "env \<Rightarrow> event \<Rightarrow> world \<Rightarrow> response thrown_or \<times> world" where
  "handler_try en ev w =
     (case ev_body ev of
        Inl m \<Rightarrow> (Inl m, w)
      | Inr b \<Rightarrow>
          if endsWith (path_of ev) (js ''/lookup-by-name'') then lookup_by_name en b w
          else lookup_by_image en b w)"

text \<open>
  The handler, with its \<^verbatim>\<open>catch\<close>:
  \<^verbatim>\<open>
  } catch (e) {
    if (e.message.includes('not found')) {
      return { statusCode: 200, headers, body: JSON.stringify({ found: false }) };
    }
    console.error('Lambda error:', e.message);
    return { statusCode: 500, headers, body: JSON.stringify({ error: e.message }) };
  }
  \<close>
\<close>

definition handler :: "env \<Rightarrow> event \<Rightarrow> world \<Rightarrow> response \<times> world" where
  "handler en ev w =
     (case handler_try en ev w of
        (Inl m, w') \<Rightarrow>
          (if str_includes m (js ''not found'') then found_false
           else \<lparr>statusCode = 500, body = ErrorMsg m\<rparr>, w')
      | (Inr r, w') \<Rightarrow> (r, w'))"

section \<open>Runs of the process\<close>

text \<open>
  Calls of the resolver one after the other: before each call the clock has moved on by
  some number of milliseconds, and each call has an environment of its own.
\<close>

fun run_lookups :: "(nat \<times> env \<times> jsstring) list \<Rightarrow> world \<Rightarrow> world" where
  "run_lookups [] w = w"
| "run_lookups ((idle, en, cardName) # rest) w =
     run_lookups rest (snd (lookupCard en cardName (w\<lparr>clock := clock w + int idle\<rparr>)))"

text \<open>Invocations of the handler (pipeline runs) one after the other.\<close>

fun run_handlers :: "(nat \<times> env \<times> event) list \<Rightarrow> world \<Rightarrow> world" where
  "run_handlers [] w = w"
| "run_handlers ((idle, en, ev) # rest) w =
     run_handlers rest (snd (handler en ev (w\<lparr>clock := clock w + int idle\<rparr>)))"

text \<open>The times at which the requests to the card database were issued, in order.\<close>

fun scryfall_times :: "outbound list \<Rightarrow> int list" where
  "scryfall_times [] = []"
| "scryfall_times (ScryfallCall t n # cs) = t # scryfall_times cs"
| "scryfall_times (GeminiCall t i # cs) = scryfall_times cs"

text \<open>The payloads that were sent to the vision service.\<close>

fun gemini_payloads :: "outbound list \<Rightarrow> jsstring list" where
  "gemini_payloads [] = []"
| "gemini_payloads (GeminiCall t i # cs) = i # gemini_payloads cs"
| "gemini_payloads (ScryfallCall t n # cs) = gemini_payloads cs"

text \<open>
  The invariant of the process: the requests to the card database issued so far are at
  least the floor apart, and none was issued after the recorded time stamp.
\<close>

definition paced :: "world \<Rightarrow> bool" where
  "paced w = (sorted_wrt (\<lambda>s t. s + SCRYFALL_RATE_LIMIT_MS \<le> t) (scryfall_times (calls w))
              \<and> list_all (\<lambda>t. t \<le> lastScryfallCall w) (scryfall_times (calls w)))"

section \<open>The service worker (background.js)\<close>

text \<open>
  \<^verbatim>\<open>
  function dataUrlToBase64(dataUrl) {
    const parts = dataUrl.split(',');
    return parts.length > 1 ? parts[1] : dataUrl;
  }
  \<close>
  With a comma in the string, the second part is what stands between the first comma and
  the next one.
\<close>

definition dataUrlToBase64 :: "jsstring \<Rightarrow> jsstring" where
  "dataUrlToBase64 dataUrl =
     (if 44 \<in> set dataUrl
      then takeWhile (\<lambda>c. c \<noteq> 44) (tl (dropWhile (\<lambda>c. c \<noteq> 44) dataUrl))
      else dataUrl)"

text \<open>What the fetch of the backend endpoint gives: a failure, or the backend's response.\<close>

datatype api_reply = ApiFetchFailed jsstring | ApiResponse response

text \<open>
  \<^verbatim>\<open>lookupCardFromImage\<close> after the fetch:
  \<^verbatim>\<open>
  if (!response.ok) { throw new Error('Lookup failed'); }
  const data = await response.json();
  return data;
  \<close>
\<close>

definition lookupCardFromImage_result :: "api_reply \<Rightarrow> resp_body thrown_or" where
  "lookupCardFromImage_result reply =
     (case reply of
        ApiFetchFailed m \<Rightarrow> Inl m
      | ApiResponse r \<Rightarrow>
          if \<not> resp_ok (statusCode r) then Inl (js ''Lookup failed'') else Inr (body r))"

text \<open>
  What the content script's callback receives: no response
  (\<^verbatim>\<open>chrome.runtime.lastError\<close> is set), \<^verbatim>\<open>{ success: true, ...result }\<close>, or
  \<^verbatim>\<open>{ success: false, error: error.message }\<close>.
\<close>

datatype message_response =
  LastError jsstring
| Success resp_body
| Failure jsstring

text \<open>The listener's answer to the action \<^verbatim>\<open>lookupCard\<close>.\<close>

definition onMessage_lookupCard :: "api_reply \<Rightarrow> message_response" where
  "onMessage_lookupCard reply =
     (case lookupCardFromImage_result reply of
        Inr result \<Rightarrow> Success result
      | Inl m \<Rightarrow> Failure m)"

section \<open>The content script (content.js)\<close>

text \<open>
  How the promise of \<^verbatim>\<open>performCardLookup\<close> settles: resolved with
  \<^verbatim>\<open>{ found, card, detectedName }\<close>, or rejected with a message.
\<close>

datatype lookup_outcome =
  Resolved bool "card option" "jsstring option"
| Rejected jsstring

text \<open>
  The callback of \<^verbatim>\<open>chrome.runtime.sendMessage\<close> in \<^verbatim>\<open>performCardLookup\<close>:
  \<^verbatim>\<open>
  if (chrome.runtime.lastError) { reject(new Error(chrome.runtime.lastError.message)); return; }
  if (response && response.success) {
    resolve({ found: response.found, card: response.card, detectedName: response.detectedName });
  } else {
    reject(new Error(response?.error || 'Lookup failed'));
  }
  \<close>
\<close>

definition performCardLookup_settled :: "message_response \<Rightarrow> lookup_outcome" where
  "performCardLookup_settled response =
     (case response of
        LastError m \<Rightarrow> Rejected m
      | Success (Found c detectedName) \<Rightarrow> Resolved True (Some c) detectedName
      | Success NotFound \<Rightarrow> Resolved False None None
      | Success (ErrorMsg m) \<Rightarrow> Resolved False None None
      | Failure m \<Rightarrow> Rejected (if m \<noteq> [] then m else js ''Lookup failed''))"

text \<open>
  What the page shows: nothing, or one of the overlays (each with its backdrop). The
  debug overlay of the debug mode is not part of this model.
\<close>

datatype overlay =
  LoadingSpinner jsstring
| CardOverlay card
| FallbackInput jsstring jsstring

text \<open>
  The page: the overlay shown, and the number of lookups whose promise has not settled
  yet.
\<close>

record page =
  shown :: "overlay option"
  in_flight :: nat

definition dismissOverlay :: "page \<Rightarrow> page" where
  "dismissOverlay p = p\<lparr>shown := None\<rparr>"

text \<open>
  \<^verbatim>\<open>showLoadingSpinner(cardName, customMessage)\<close>: the text is
  \<^verbatim>\<open>customMessage || `Searching for: ${cardName}`\<close>, where a \<^verbatim>\<open>null\<close> name
  prints as \<^verbatim>\<open>null\<close>.
\<close>

definition showLoadingSpinner :: "jsstring option \<Rightarrow> jsstring option \<Rightarrow> page \<Rightarrow> page" where
  "showLoadingSpinner cardName customMessage p =
     (dismissOverlay p)\<lparr>shown := Some (LoadingSpinner
        (if truthy customMessage
         then (case customMessage of Some m \<Rightarrow> m | None \<Rightarrow> [])
         else js ''Searching for: ''
              @ (case cardName of Some n \<Rightarrow> n | None \<Rightarrow> js ''null'')))\<rparr>"

definition showCardOverlay :: "card \<Rightarrow> page \<Rightarrow> page" where
  "showCardOverlay cardData p = (dismissOverlay p)\<lparr>shown := Some (CardOverlay cardData)\<rparr>"

text \<open>
  \<^verbatim>\<open>showFallbackInput(detectedText, errorMessage)\<close>: the input is pre-filled with
  \<^verbatim>\<open>detectedText || ''\<close>.
\<close>

definition showFallbackInput :: "jsstring option \<Rightarrow> jsstring \<Rightarrow> page \<Rightarrow> page" where
  "showFallbackInput detectedText errorMessage p =
     (dismissOverlay p)\<lparr>shown := Some (FallbackInput
        (case js_or detectedText (Some []) of Some t \<Rightarrow> t | None \<Rightarrow> []) errorMessage)\<rparr>"

text \<open>
  The two callbacks of \<^verbatim>\<open>handleCardLookup\<close>:
  \<^verbatim>\<open>
  .then((result) => {
    dismissOverlay();
    if (result.found && result.card && result.card.imageUrl) {
      showCardOverlay(result.card);
    } else {
      showFallbackInput(result.detectedName || '', 'No card detected. Please enter card name manually.');
    }
  })
  .catch(() => {
    dismissOverlay();
    showFallbackInput('', 'Unable to detect card. Please enter card name manually.');
  });
  \<close>
\<close>

definition no_card_message :: jsstring where
  "no_card_message = js ''No card detected. Please enter card name manually.''"

definition unable_message :: jsstring where
  "unable_message = js ''Unable to detect card. Please enter card name manually.''"

definition lookup_settled :: "lookup_outcome \<Rightarrow> page \<Rightarrow> page" where
  "lookup_settled outcome p =
     (case outcome of
        Resolved found c detectedName \<Rightarrow>
          (case c of
             Some cardData \<Rightarrow>
               if found \<and> truthy (imageUrl cardData)
               then showCardOverlay cardData (dismissOverlay p)
               else showFallbackInput (js_or detectedName (Some [])) no_card_message
                      (dismissOverlay p)
           | None \<Rightarrow>
               showFallbackInput (js_or detectedName (Some [])) no_card_message
                 (dismissOverlay p))
      | Rejected m \<Rightarrow> showFallbackInput (Some []) unable_message (dismissOverlay p))"

text \<open>
  \<^verbatim>\<open>handleCardLookup\<close> up to the point where the lookup is under way: the spinner
  is shown and one more promise is pending.
\<close>

definition handleCardLookup :: "page \<Rightarrow> page" where
  "handleCardLookup p =
     (showLoadingSpinner None (Some (js ''Looking up card...'')) p)\<lparr>in_flight := in_flight p + 1\<rparr>"

text \<open>
  The events of the page: the Escape key, a click on the backdrop or on the close button,
  the backtick key (with whether the target is an input field), and the settling of a
  pending lookup.
\<close>

datatype page_event =
  EscapeKey
| DismissClick
| BacktickKey bool
| LookupSettled lookup_outcome

definition page_step :: "page \<Rightarrow> page_event \<Rightarrow> page" where
  "page_step p e =
     (case e of
        EscapeKey \<Rightarrow> dismissOverlay p
      | DismissClick \<Rightarrow> dismissOverlay p
      | BacktickKey in_input \<Rightarrow> if in_input then p else handleCardLookup p
      | LookupSettled outcome \<Rightarrow>
          if in_flight p = 0 then p
          else lookup_settled outcome (p\<lparr>in_flight := in_flight p - 1\<rparr>))"

definition idle_page :: page where
  "idle_page = \<lparr>shown = None, in_flight = 0\<rparr>"

section \<open>Region Capturer: \<^verbatim>\<open>captureRegionAroundCursor\<close> (content.js)\<close>

text \<open>
  The geometry of the capture. The cursor and the viewport are whole numbers of pixels;
  half pixels arise from \<^verbatim>\<open>regionWidth / 2\<close>, so the coordinates are rationals.
  \<^verbatim>\<open>
  const startX = Math.max(0, cursorX - regionWidth / 2);
  const startY = Math.max(0, cursorY - regionHeight / 2);
  const endX = Math.min(window.innerWidth, startX + regionWidth);
  const endY = Math.min(window.innerHeight, startY + regionHeight);
  const width = endX - startX;
  const height = endY - startY;
  const scale = 2;
  canvas.width = width * scale;
  canvas.height = height * scale;
  \<close>
  The drawing into the canvas is not modelled.
\<close>

record viewport =
  innerWidth :: int
  innerHeight :: int

record capture =
  startX :: rat
  startY :: rat
  endX :: rat
  endY :: rat
  canvas_width :: rat
  canvas_height :: rat

definition captureRegionAroundCursor :: "viewport \<Rightarrow> int \<Rightarrow> int \<Rightarrow> rat \<Rightarrow> rat \<Rightarrow> capture" where
  "captureRegionAroundCursor window cursorX cursorY regionWidth regionHeight =
     (let sx = max 0 (of_int cursorX - regionWidth / 2);
          sy = max 0 (of_int cursorY - regionHeight / 2);
          ex = min (of_int (innerWidth window)) (sx + regionWidth);
          ey = min (of_int (innerHeight window)) (sy + regionHeight);
          width = ex - sx;
          height = ey - sy;
          scale = 2
      in \<lparr>startX = sx, startY = sy, endX = ex, endY = ey,
          canvas_width = width * scale, canvas_height = height * scale\<rparr>)"

section \<open>The pipeline from the page to the backend and back\<close>

text \<open>
  The event the backend receives for a lookup by image, as the service worker and the
  gateway build it: the path \<^verbatim>\<open>/lookup\<close> and the body
  \<^verbatim>\<open>{ image: dataUrlToBase64(imageDataUrl) }\<close>.
\<close>

definition lookup_event :: "jsstring \<Rightarrow> event" where
  "lookup_event imageDataUrl =
     \<lparr>ev_path = Some (js ''/lookup''), ev_http_path = None,
      ev_body = Inr \<lparr>name_field = Undefined, image_field = Str (dataUrlToBase64 imageDataUrl)\<rparr>\<rparr>"

text \<open>
  One run from the captured image to what the page shows when the lookup settles: the
  backend handles the event, the service worker passes its answer on, and the content
  script renders it.
\<close>

definition pipeline_run :: "env \<Rightarrow> jsstring \<Rightarrow> world \<Rightarrow> page \<Rightarrow> page \<times> world" where
  "pipeline_run en imageDataUrl w p =
     (case handler en (lookup_event imageDataUrl) w of
        (r, w') \<Rightarrow>
          (lookup_settled (performCardLookup_settled (onMessage_lookupCard (ApiResponse r))) p,
           w'))"

section \<open>Sample inputs\<close>

text \<open>
  An environment for the examples: the decoder gives the 24 header bytes for their base64
  text, the same header with the width 145 for its base64 text, and an empty buffer for
  every other payload; the two services answer as given.
\<close>

definition sample_env :: "gemini_reply \<Rightarrow> scryfall_reply \<Rightarrow> env" where
  "sample_env g s =
     \<lparr>Buffer_from = (\<lambda>p. if p = js ''iVBORw0KGgoAAAANSUhEUgAAAPoAAAB4''
                                then Inr png_header_250x120
                           else if p = js ''iVBORw0KGgoAAAANSUhEUgAAAJEAAAB4''
                                then Inr (png_header_250x120 [19 := 145])
                           else Inr []),
      GEMINI_API_KEY = Some (js ''key''),
      gemini = (\<lambda>k i. g),
      scryfall = (\<lambda>n. s),
      timer_late = 0, gemini_ms = 400, scryfall_ms = 30\<rparr>"

text \<open>
  The same environment with a timer that fires one millisecond early as
  \<^verbatim>\<open>Date.now()\<close> reads it, and a card database that knows no card.
\<close>

definition early_timer_env :: env where
  "early_timer_env =
     (sample_env (GeminiResponse 200 [] (Inr None)) (ScryfallResponse 404 (Inl [])))
       \<lparr>timer_late := - 1\<rparr>"

definition name_event :: "jsstring \<Rightarrow> event" where
  "name_event n =
     \<lparr>ev_path = Some (js ''/lookup-by-name''), ev_http_path = None,
      ev_body = Inr \<lparr>name_field = Str n, image_field = Undefined\<rparr>\<rparr>"

definition gemini_says :: "jsstring \<Rightarrow> gemini_reply" where
  "gemini_says t = GeminiResponse 200 [] (Inr (Some [Some t]))"

definition single_faced :: scryfall_card where
  "single_faced =
     \<lparr>c_name = Some (js ''Shock''),
      c_image_uris = Some \<lparr>normal = Some (js ''n.jpg''), large = Some (js ''l.jpg'')\<rparr>,
      c_card_faces = None,
      c_set = Some (js ''m21''), c_set_name = Some (js ''Core Set 2021''),
      c_type_line = Some (js ''Instant''), c_oracle_text = Some (js ''Shock deals 2 damage.''),
      c_mana_cost = Some (js ''{R}''), c_rarity = Some (js ''common'')\<rparr>"

definition double_faced :: scryfall_card where
  "double_faced =
     \<lparr>c_name = Some (js ''Delver of Secrets // Insectile Aberration''),
      c_image_uris = None,
      c_card_faces = Some
        [\<lparr>face_image_uris = Some \<lparr>normal = None, large = Some (js ''front-l.jpg'')\<rparr>,
          face_oracle_text = Some (js ''front text''), face_mana_cost = Some (js ''{U}'')\<rparr>,
         \<lparr>face_image_uris = Some \<lparr>normal = Some (js ''back-n.jpg''), large = None\<rparr>,
          face_oracle_text = Some (js ''back text''), face_mana_cost = Some []\<rparr>],
      c_set = Some (js ''isd''), c_set_name = Some (js ''Innistrad''),
      c_type_line = Some (js ''Creature''), c_oracle_text = None,
      c_mana_cost = None, c_rarity = Some (js ''common'')\<rparr>"

text \<open>
  Two captured images as data URLs: a header of 250 by 120 pixels, and one of 145 by 120.
\<close>

definition url_250x120 :: jsstring where
  "url_250x120 = js ''data:image/png;base64,iVBORw0KGgoAAAANSUhEUgAAAPoAAAB4''"

definition url_145x120 :: jsstring where
  "url_145x120 = js ''data:image/png;base64,iVBORw0KGgoAAAANSUhEUgAAAJEAAAB4''"

section \<open>The spec's notion of a record with independent face images\<close>

text \<open>
  Following the spec's words (a source record that has two faces with independent face
  images, a second face carrying its own image data): the record has at least two faces
  and its second face carries image data.
\<close>

definition second_face_has_image :: "scryfall_card \<Rightarrow> bool" where
  "second_face_has_image c =
     (case c_card_faces c of
        None \<Rightarrow> False
      | Some fs \<Rightarrow> 1 < length fs \<and> face_image_uris (fs ! 1) \<noteq> None)"

text \<open>
  What the card database sends. Image data sits either on the card or on its faces, never
  on both: a card whose faces share one picture (a split card) has the image data on the
  card, a card with a picture per face has it on the faces.
\<close>

definition images_on_card_or_faces :: "scryfall_card \<Rightarrow> bool" where
  "images_on_card_or_faces c =
     (case c_image_uris c of
        None \<Rightarrow> True
      | Some u \<Rightarrow>
          (case c_card_faces c of
             None \<Rightarrow> True
           | Some fs \<Rightarrow> list_all (\<lambda>f. face_image_uris f = None) fs))"

text \<open>
  Image data of a face, where the card database sends it, has a non-empty URL in the
  normal or in the large size.
\<close>

definition face_images_have_urls :: "scryfall_card \<Rightarrow> bool" where
  "face_images_have_urls c =
     (case c_card_faces c of
        None \<Rightarrow> True
      | Some fs \<Rightarrow>
          list_all (\<lambda>f. case face_image_uris f of
                            None \<Rightarrow> True
                          | Some u \<Rightarrow> truthy (normal u) \<or> truthy (large u)) fs)"

text \<open>The image data of the front: the record's own, or else that of its first face.\<close>

definition front_image_uris :: "scryfall_card \<Rightarrow> image_uris option" where
  "front_image_uris c =
     (case c_image_uris c of
        Some u \<Rightarrow> Some u
      | None \<Rightarrow>
          (case c_card_faces c of
             None \<Rightarrow> None
           | Some fs \<Rightarrow> (case fs of [] \<Rightarrow> None | f # _ \<Rightarrow> face_image_uris f)))"

section \<open>Properties of the Name Normalizer\<close>

lemma collapse_ws_chars:
  "c \<in> set (collapse_ws b s) \<Longrightarrow> is_space c \<Longrightarrow> c = 32"
  by (induction b s rule: collapse_ws.induct) (auto split: if_splits)

lemma kept_collapsed_allowed:
  "c \<in> set (filter kept (collapse_ws b s)) \<Longrightarrow> allowed_char c"
  using collapse_ws_chars [of c b s] by (auto simp: kept_def allowed_char_def)

text \<open>
  Claim C4. For every input string the Name Normalizer returns (it is a total function of
  the string), its output has at most 50 code units, every code unit of the output is a
  letter, a digit, a space, a hyphen or an apostrophe, and the empty input gives the
  empty output.
\<close>

theorem cleanCardName_bounded_and_safe:
  "length (cleanCardName s) \<le> 50 \<and> list_all allowed_char (cleanCardName s)
   \<and> cleanCardName [] = []"
proof -
  have "allowed_char c" if "c \<in> set (cleanCardName s)" for c
  proof -
    from that have "c \<in> set (filter kept (collapse_ws False (trim s)))"
      by (auto simp: cleanCardName_def split: if_splits dest: in_set_takeD)
    then show ?thesis by (rule kept_collapsed_allowed)
  qed
  then show ?thesis
    by (simp add: cleanCardName_def list_all_iff)
qed

theorem cleanCardName_bounded_and_safe_witness:
  "cleanCardName (js ''  Jace,   the Mind Sculptor! '') = js ''Jace the Mind Sculptor''
   \<and> length (cleanCardName (js ''  Jace,   the Mind Sculptor! '')) \<le> 50
   \<and> list_all allowed_char (cleanCardName (js ''  Jace,   the Mind Sculptor! ''))"
  using cleanCardName_bounded_and_safe [of "js ''  Jace,   the Mind Sculptor! ''"]
  by (simp add: cleanCardName_def js_def trim_def is_space_def kept_def is_lower_def
      is_upper_def is_digit_def)

text \<open>
  Claim C5 says that normalizing is idempotent and that the output has its white space
  collapsed and trimmed. The source strips the disallowed characters after it has
  collapsed the white space, so the two spaces around a stripped character stay:
  the name of the split card \<^verbatim>\<open>Fire // Ice\<close> is normalized to a string with two
  adjacent spaces, and normalizing that string again gives a different string. In the
  same way a stripped first character leaves a leading space, and the cut at 50 code
  units leaves a trailing space when the 50th is one.
\<close>

theorem cleanCardName_not_idempotent:
  "cleanCardName (js ''Fire // Ice'') = js ''Fire  Ice''
   \<and> cleanCardName (cleanCardName (js ''Fire // Ice'')) = js ''Fire Ice''
   \<and> cleanCardName (js ''! Shock'') = js '' Shock''
   \<and> cleanCardName (js ''aaaaaaaaaaaaaaaaaaaaaaaaaaaaaaaaaaaaaaaaaaaaaaaaa bc'') = js ''aaaaaaaaaaaaaaaaaaaaaaaaaaaaaaaaaaaaaaaaaaaaaaaaa ''"
  by (simp add: cleanCardName_def js_def trim_def is_space_def kept_def is_lower_def
      is_upper_def is_digit_def)


section \<open>Properties of the Image Validator\<close>

lemma be32_small:
  fixes a b c d :: byte
  assumes "n < 256"
  shows "(unat a * 2 ^ 24 + unat b * 2 ^ 16 + unat c * 2 ^ 8 + unat d = n)
         = (a = 0 \<and> b = 0 \<and> c = 0 \<and> d = of_nat n)"
proof -
  have bnd: "unat x < 256" for x :: byte
    using unsigned_less [of x, where ?'a = nat] by simp
  have e: "(d = of_nat n) = (unat d = n)"
    using assms by (auto simp: word_unat_eq_iff unat_of_nat take_bit_nat_eq_self)
  have z: "(x = 0) = (unat x = 0)" for x :: byte by (simp add: unat_eq_0)
  show ?thesis unfolding e z using bnd [of a] bnd [of b] bnd [of c] bnd [of d] assms by auto
qed

lemma take4_nth:
  "4 \<le> length buf \<Longrightarrow>
   (take 4 buf = [a, b, c, d]) = (buf ! 0 = a \<and> buf ! 1 = b \<and> buf ! 2 = c \<and> buf ! 3 = d)"
  by (auto simp: list_eq_iff_nth_eq All_less_Suc eval_nat_numeral)

lemma take8_drop16_nth:
  "24 \<le> length buf \<Longrightarrow>
   (take 8 (drop 16 buf) = [a0, a1, a2, a3, a4, a5, a6, a7]) =
   (buf ! 16 = a0 \<and> buf ! 17 = a1 \<and> buf ! 18 = a2 \<and> buf ! 19 = a3 \<and>
    buf ! 20 = a4 \<and> buf ! 21 = a5 \<and> buf ! 22 = a6 \<and> buf ! 23 = a7)"
  by (auto simp: list_eq_iff_nth_eq All_less_Suc eval_nat_numeral)

lemma validateImage_try_decoded:
  assumes "dec p = Inr buf"
  shows "validateImage_try dec p =
         Inr (24 \<le> length buf \<and> take 4 buf = [0x89, 0x50, 0x4E, 0x47]
              \<and> take 8 (drop 16 buf) = [0, 0, 0, 250, 0, 0, 0, 120])"
proof (cases "24 \<le> length buf")
  case False
  then show ?thesis using assms by (simp add: validateImage_try_def)
next
  case True
  have w: "(unat (buf ! 16) * 16777216 + unat (buf ! 17) * 65536 + unat (buf ! 18) * 256
            + unat (buf ! 19) = 250)
           = (buf ! 16 = 0 \<and> buf ! 17 = 0 \<and> buf ! 18 = 0 \<and> buf ! 19 = 250)"
    using be32_small [of 250 "buf ! 16" "buf ! 17" "buf ! 18" "buf ! 19"] by simp
  have h: "(unat (buf ! 20) * 16777216 + unat (buf ! 21) * 65536 + unat (buf ! 22) * 256
            + unat (buf ! 23) = 120)
           = (buf ! 20 = 0 \<and> buf ! 21 = 0 \<and> buf ! 22 = 0 \<and> buf ! 23 = 120)"
    using be32_small [of 120 "buf ! 20" "buf ! 21" "buf ! 22" "buf ! 23"] by simp
  from True have t4: "4 \<le> length buf" by simp
  show ?thesis
    using assms True
    by (simp add: validateImage_try_def readUInt32BE_def EXPECTED_WIDTH_def
        EXPECTED_HEIGHT_def w h take4_nth [OF t4] take8_drop16_nth [OF True])
qed

text \<open>
  Claim C2. For every payload and every behaviour of the base64 decoder, the Image
  Validator returns a boolean (a throwing decoder gives false, and the header reads never
  leave the buffer, so nothing else can throw). It returns true exactly when the decoded
  buffer has at least 24 bytes, starts with the magic bytes \<^verbatim>\<open>89 50 4E 47\<close>, and
  carries the width 250 and the height 120 as big-endian 32-bit numbers at the offsets
  16 and 20; so it returns false for a short buffer, for a wrong magic header and for any
  other width or height.
\<close>

theorem validateImage_characterised:
  "validateImage dec p =
     (\<exists>buf. dec p = Inr buf \<and> 24 \<le> length buf
            \<and> take 4 buf = [0x89, 0x50, 0x4E, 0x47]
            \<and> take 8 (drop 16 buf) = [0, 0, 0, 250, 0, 0, 0, 120])
   \<and> (validateImage_try dec p = Inl e) = (dec p = Inl e)"
proof (cases "dec p")
  case (Inl m)
  then show ?thesis by (simp add: validateImage_def validateImage_try_def)
next
  case (Inr buf)
  then show ?thesis
    using validateImage_try_decoded [of dec p buf] by (simp add: validateImage_def)
qed

theorem validateImage_characterised_witness:
  "validateImage (\<lambda>p. Inr p) png_header_250x120
   \<and> \<not> validateImage (\<lambda>p. Inr p) (take 23 png_header_250x120)
   \<and> \<not> validateImage (\<lambda>p. Inr p) (png_header_250x120 [1 := 0x51])
   \<and> \<not> validateImage (\<lambda>p. Inr p) (png_header_250x120 [19 := 125, 23 := 60])
   \<and> \<not> validateImage (\<lambda>p. Inl (js ''not a string'')) png_header_250x120"
  using validateImage_characterised [of "\<lambda>p. Inr p" png_header_250x120 "[]"]
    validateImage_characterised [of "\<lambda>p. Inr p" "take 23 png_header_250x120" "[]"]
    validateImage_characterised [of "\<lambda>p. Inr p" "png_header_250x120 [1 := 0x51]" "[]"]
    validateImage_characterised [of "\<lambda>p. Inr p" "png_header_250x120 [19 := 125, 23 := 60]" "[]"]
    validateImage_characterised [of "\<lambda>p. Inl (js ''not a string'')" png_header_250x120 "[]"]
  by (simp add: png_header_250x120_def)


section \<open>Properties of the rate limiter\<close>

lemma scryfall_times_append:
  "scryfall_times (xs @ ys) = scryfall_times xs @ scryfall_times ys"
  by (induction xs rule: scryfall_times.induct) simp_all

lemma rateLimitScryfall_calls: "calls (rateLimitScryfall late w) = calls w"
  by (simp add: rateLimitScryfall_def Let_def)

lemma rateLimitScryfall_stamp:
  "lastScryfallCall (rateLimitScryfall late w) = clock (rateLimitScryfall late w)"
  by (simp add: rateLimitScryfall_def Let_def)

lemma rateLimitScryfall_floor:
  "0 \<le> late \<Longrightarrow>
   lastScryfallCall w + SCRYFALL_RATE_LIMIT_MS \<le> clock (rateLimitScryfall late w)"
  by (simp add: rateLimitScryfall_def Let_def max_def)

lemma lookupCard_times:
  "scryfall_times (calls (snd (lookupCard en n w)))
     = scryfall_times (calls w) @ [lastScryfallCall (snd (lookupCard en n w))]"
  by (simp add: lookupCard_def Let_def scryfall_times_append rateLimitScryfall_calls
      rateLimitScryfall_stamp)

lemma lookupCard_floor:
  "0 \<le> timer_late en \<Longrightarrow>
   lastScryfallCall w + SCRYFALL_RATE_LIMIT_MS \<le> lastScryfallCall (snd (lookupCard en n w))"
  using rateLimitScryfall_floor [of "timer_late en" w]
  by (simp add: lookupCard_def Let_def rateLimitScryfall_stamp)

lemma paced_start: "paced (start_world t0)"
  by (simp add: paced_def start_world_def)

lemma paced_idle: "paced w \<Longrightarrow> paced (w\<lparr>clock := c\<rparr>)"
  by (simp add: paced_def)

lemma paced_lookupCard:
  assumes "paced w" and "0 \<le> timer_late en"
  shows "paced (snd (lookupCard en n w))"
proof -
  let ?w' = "snd (lookupCard en n w)"
  have fl: "lastScryfallCall w + SCRYFALL_RATE_LIMIT_MS \<le> lastScryfallCall ?w'"
    by (rule lookupCard_floor [OF assms(2)])
  have pos: "0 \<le> SCRYFALL_RATE_LIMIT_MS" by (simp add: SCRYFALL_RATE_LIMIT_MS_def)
  have old: "\<forall>t \<in> set (scryfall_times (calls w)). t \<le> lastScryfallCall w"
    using assms(1) by (simp add: paced_def list_all_iff)
  then have "\<forall>t \<in> set (scryfall_times (calls w)).
               t + SCRYFALL_RATE_LIMIT_MS \<le> lastScryfallCall ?w' \<and> t \<le> lastScryfallCall ?w'"
    using fl pos by fastforce
  then show ?thesis
    using assms(1) by (simp add: paced_def lookupCard_times sorted_wrt_append list_all_iff)
qed

lemma performOCR_times:
  "scryfall_times (calls (snd (performOCR en i k w))) = scryfall_times (calls w)"
  "lastScryfallCall (snd (performOCR en i k w)) = lastScryfallCall w"
  by (simp_all add: performOCR_def scryfall_times_append)

lemma paced_performOCR: "paced w \<Longrightarrow> paced (snd (performOCR en i k w))"
  by (simp add: paced_def performOCR_times)

lemma paced_lookupCardD:
  "lookupCard en n w = (r, w') \<Longrightarrow> 0 \<le> timer_late en \<Longrightarrow> paced w \<Longrightarrow> paced w'"
  using paced_lookupCard [of w en n] by simp

lemma paced_performOCRD: "performOCR en i k w = (r, w') \<Longrightarrow> paced w \<Longrightarrow> paced w'"
  using paced_performOCR [of w en i k] by simp

lemma paced_lookup_by_name:
  "0 \<le> timer_late en \<Longrightarrow> paced w \<Longrightarrow> paced (snd (lookup_by_name en b w))"
  by (auto simp: lookup_by_name_def Let_def split: field.splits prod.splits sum.splits
      dest: paced_lookupCardD)

lemma paced_recognize_and_resolve:
  "0 \<le> timer_late en \<Longrightarrow> paced w \<Longrightarrow> paced (snd (recognize_and_resolve en i w))"
  by (auto simp: recognize_and_resolve_def Let_def
      split: prod.splits sum.splits option.splits
      dest: paced_lookupCardD paced_performOCRD)

lemma paced_lookup_by_image:
  "0 \<le> timer_late en \<Longrightarrow> paced w \<Longrightarrow> paced (snd (lookup_by_image en b w))"
  using paced_recognize_and_resolve [of en w]
  by (auto simp: lookup_by_image_def Let_def split: field.splits)

lemma paced_handler:
  assumes "0 \<le> timer_late en" and p: "paced w"
  shows "paced (snd (handler en ev w))"
proof -
  have "paced (snd (handler_try en ev w))"
    using paced_lookup_by_name [OF assms, of _] paced_lookup_by_image [OF assms, of _] p
    by (simp add: handler_try_def split: sum.splits)
  moreover have "snd (handler en ev w) = snd (handler_try en ev w)"
    by (simp add: handler_def split: prod.splits sum.splits)
  ultimately show ?thesis by simp
qed

lemma paced_run_lookups:
  "list_all (\<lambda>(idle, en, n). 0 \<le> timer_late en) cs \<Longrightarrow> paced w \<Longrightarrow> paced (run_lookups cs w)"
proof (induction cs arbitrary: w)
  case Nil
  then show ?case by simp
next
  case (Cons c cs)
  obtain idle en n where c: "c = (idle, en, n)" by (cases c)
  from Cons.prems(1) have t: "0 \<le> timer_late en"
    and rest: "list_all (\<lambda>(idle, en, n). 0 \<le> timer_late en) cs"
    by (simp_all add: c)
  have "paced (snd (lookupCard en n (w\<lparr>clock := clock w + int idle\<rparr>)))"
    by (rule paced_lookupCard [OF paced_idle [OF Cons.prems(2)] t])
  from Cons.IH [OF rest this] show ?case by (simp add: c)
qed

lemma paced_run_handlers:
  "list_all (\<lambda>(idle, en, ev). 0 \<le> timer_late en) hs \<Longrightarrow> paced w \<Longrightarrow> paced (run_handlers hs w)"
proof (induction hs arbitrary: w)
  case Nil
  then show ?case by simp
next
  case (Cons h hs)
  obtain idle en ev where h: "h = (idle, en, ev)" by (cases h)
  from Cons.prems(1) have t: "0 \<le> timer_late en"
    and rest: "list_all (\<lambda>(idle, en, ev). 0 \<le> timer_late en) hs"
    by (simp_all add: h)
  have "paced (snd (handler en ev (w\<lparr>clock := clock w + int idle\<rparr>)))"
    by (rule paced_handler [OF t paced_idle [OF Cons.prems(2)]])
  from Cons.IH [OF rest this] show ?case by (simp add: h)
qed

lemma run_lookups_count:
  "length (scryfall_times (calls (run_lookups cs w)))
     = length (scryfall_times (calls w)) + length cs"
proof (induction cs arbitrary: w)
  case Nil
  then show ?case by simp
next
  case (Cons c cs)
  obtain idle en n where c: "c = (idle, en, n)" by (cases c)
  show ?case unfolding c run_lookups.simps Cons.IH
    by (simp add: lookupCard_def Let_def scryfall_times_append rateLimitScryfall_calls)
qed

text \<open>
  What the rate limiter does achieve: as long as no timer fires early and the calls
  follow one another, the requests to the card database are at least 100 ms apart, for
  calls of the resolver and for handler invocations alike.
\<close>

lemma paced_when_no_timer_fires_early:
  assumes "list_all (\<lambda>(idle, en, n). 0 \<le> timer_late en) cs"
    and "list_all (\<lambda>(idle, en, ev). 0 \<le> timer_late en) hs"
  shows "sorted_wrt (\<lambda>s t. s + 100 \<le> t) (scryfall_times (calls (run_lookups cs (start_world t0))))"
    and "length (scryfall_times (calls (run_lookups cs (start_world t0)))) = length cs"
    and "sorted_wrt (\<lambda>s t. s + 100 \<le> t) (scryfall_times (calls (run_handlers hs (start_world t0))))"
  using paced_run_lookups [OF assms(1) paced_start, of t0]
    paced_run_handlers [OF assms(2) paced_start, of t0]
    run_lookups_count [of cs "start_world t0"]
  by (simp_all add: paced_def SCRYFALL_RATE_LIMIT_MS_def start_world_def)

text \<open>
  Claim C1 says that no two requests to the card database are ever issued less than
  100 ms apart. The source asks the timer for the missing part of the interval once and
  records \<^verbatim>\<open>Date.now()\<close> when the timer fires, without comparing it with the last
  time stamp again. The timers of the platform do not run on the clock of
  \<^verbatim>\<open>Date.now()\<close> and can fire a millisecond early by it. In the run below two lookups
  follow one another in a process; the first request is issued at once, the second call
  starts 30 ms later, asks the timer for 70 ms, the timer fires after 69 ms, and the
  second request is issued 99 ms after the first. The same happens for two invocations of
  the handler.
\<close>

theorem scryfall_requests_99_ms_apart:
  "scryfall_times (calls (run_lookups
       [(0, early_timer_env, js ''Shock''), (0, early_timer_env, js ''Opt'')]
       (start_world 1700000000000))) = [1700000000000, 1700000000099]
   \<and> scryfall_times (calls (run_handlers
       [(0, early_timer_env, name_event (js ''Shock'')),
        (5, early_timer_env, name_event (js ''Opt''))]
       (start_world 1700000000000))) = [1700000000000, 1700000000099]
   \<and> \<not> sorted_wrt (\<lambda>s t. s + 100 \<le> t) (scryfall_times (calls (run_lookups
       [(0, early_timer_env, js ''Shock''), (0, early_timer_env, js ''Opt'')]
       (start_world 1700000000000))))"
  by (simp add: start_world_def lookupCard_def rateLimitScryfall_def Let_def
      SCRYFALL_RATE_LIMIT_MS_def early_timer_env_def sample_env_def handler_def
      handler_try_def name_event_def
      path_of_def js_or_def truthy_def endsWith_def js_def lookup_by_name_def
      cleanCardName_def trim_def is_space_def kept_def is_lower_def is_upper_def is_digit_def
      lookupCard_result_def resp_ok_def str_includes.simps)

section \<open>Properties of the Card Resolver's record\<close>

lemma nth_in_list_all: "list_all P fs \<Longrightarrow> i < length fs \<Longrightarrow> P (fs ! i)"
  by (simp add: list_all_length)

lemma backImageUrl_value:
  "backImageUrl (card_of_scryfall c) =
     (if c_card_faces c \<noteq> None \<and> c_image_uris c = None
      then (case Option.bind (face_at (c_card_faces c) 1) face_image_uris of
              None \<Rightarrow> None
            | Some u \<Rightarrow> js_or (normal u) (large u))
      else None)"
  by (simp add: card_of_scryfall_def Let_def split: option.splits)

lemma imageUrl_value:
  "imageUrl (card_of_scryfall c) =
     (case front_image_uris c of None \<Rightarrow> None | Some u \<Rightarrow> js_or (normal u) (large u))"
proof -
  have f: "(case c_image_uris c of
              Some u \<Rightarrow> Some u
            | None \<Rightarrow> Option.bind (face_at (c_card_faces c) 0) face_image_uris)
           = front_image_uris c"
    by (simp add: front_image_uris_def face_at_def split: option.splits list.splits)
  have "imageUrl (card_of_scryfall c)
        = js_or (Option.bind (front_image_uris c) normal) (Option.bind (front_image_uris c) large)"
    unfolding f [symmetric] by (simp add: card_of_scryfall_def Let_def split: option.splits)
  then show ?thesis
    by (simp add: js_or_def truthy_def split: option.splits)
qed

text \<open>
  Image data on the card itself keeps the resolver from looking at the faces: such a
  record never gets a back-face image URL.
\<close>

lemma card_image_suppresses_back:
  "c_image_uris c \<noteq> None \<Longrightarrow> backImageUrl (card_of_scryfall c) = None"
  by (auto simp: backImageUrl_value)

lemma js_or_present: "truthy a \<or> truthy b \<Longrightarrow> js_or a b \<noteq> None"
  by (auto simp: js_or_def truthy_def split: option.splits)

text \<open>
  Claim C6. For every card object as the card database sends it (image data on the card
  or on its faces, not on both, and face image data with a URL in the normal or the large
  size), the card record the resolver returns carries a back-face image URL exactly when
  the object has two faces and its second face carries its own image data. For every
  object without faces (a single-faced card) the field is absent, and the record's image
  URL is that of the front (the object's own image data, or else the first face's), in
  the normal size or else in the large size.
\<close>

theorem backImageUrl_iff_second_face_has_image:
  "(images_on_card_or_faces c \<and> face_images_have_urls c \<longrightarrow>
      (backImageUrl (card_of_scryfall c) \<noteq> None) = second_face_has_image c)
   \<and> (c_card_faces c = None \<longrightarrow> backImageUrl (card_of_scryfall c) = None)
   \<and> imageUrl (card_of_scryfall c) =
       (case front_image_uris c of None \<Rightarrow> None | Some u \<Rightarrow> js_or (normal u) (large u))
   \<and> (resp_ok status \<longrightarrow>
        lookupCard_result n (ScryfallResponse status (Inr c)) = Inr (card_of_scryfall c))"
proof -
  have a: "(backImageUrl (card_of_scryfall c) \<noteq> None) = second_face_has_image c"
    if wf: "images_on_card_or_faces c" "face_images_have_urls c"
  proof (cases "c_card_faces c")
    case None
    then show ?thesis
      by (simp add: backImageUrl_value second_face_has_image_def)
  next
    case (Some fs)
    show ?thesis
    proof (cases "1 < length fs")
      case False
      then show ?thesis
        using Some by (simp add: backImageUrl_value second_face_has_image_def face_at_def)
    next
      case True
      have at: "Option.bind (face_at (c_card_faces c) 1) face_image_uris = face_image_uris (fs ! 1)"
        using Some True by (simp add: face_at_def)
      show ?thesis
      proof (cases "face_image_uris (fs ! 1)")
        case None
        then show ?thesis
          using Some True at by (simp add: backImageUrl_value second_face_has_image_def)
      next
        case (Some u)
        have "truthy (normal u) \<or> truthy (large u)"
          using wf(2) \<open>c_card_faces c = Some fs\<close> True Some
            nth_in_list_all [of "\<lambda>f. case face_image_uris f of None \<Rightarrow> True
                                     | Some u \<Rightarrow> truthy (normal u) \<or> truthy (large u)" fs 1]
          by (simp add: face_images_have_urls_def)
        then have url: "js_or (normal u) (large u) \<noteq> None" by (rule js_or_present)
        have top: "c_image_uris c = None"
        proof (cases "c_image_uris c")
          case None
          then show ?thesis .
        next
          case (Some v)
          then have "face_image_uris (fs ! 1) = None"
            using wf(1) \<open>c_card_faces c = Some fs\<close> True
              nth_in_list_all [of "\<lambda>f. face_image_uris f = None" fs 1]
            by (simp add: images_on_card_or_faces_def)
          with \<open>face_image_uris (fs ! 1) = Some u\<close> show ?thesis by simp
        qed
        show ?thesis
          using \<open>c_card_faces c = Some fs\<close> True Some at top url
          by (simp add: backImageUrl_value second_face_has_image_def)
      qed
    qed
  qed
  have b: "c_card_faces c = None \<longrightarrow> backImageUrl (card_of_scryfall c) = None"
    by (simp add: backImageUrl_value)
  have d: "resp_ok status \<longrightarrow>
        lookupCard_result n (ScryfallResponse status (Inr c)) = Inr (card_of_scryfall c)"
    by (simp add: lookupCard_result_def)
  from a b imageUrl_value [of c] d show ?thesis by blast
qed

theorem backImageUrl_iff_second_face_has_image_witness:
  "images_on_card_or_faces double_faced \<and> face_images_have_urls double_faced
   \<and> second_face_has_image double_faced
   \<and> backImageUrl (card_of_scryfall double_faced) = Some (js ''back-n.jpg'')
   \<and> imageUrl (card_of_scryfall double_faced) = Some (js ''front-l.jpg'')
   \<and> images_on_card_or_faces single_faced \<and> face_images_have_urls single_faced
   \<and> \<not> second_face_has_image single_faced
   \<and> c_card_faces single_faced = None
   \<and> backImageUrl (card_of_scryfall single_faced) = None
   \<and> imageUrl (card_of_scryfall single_faced) = Some (js ''n.jpg'')
   \<and> resp_ok 200
   \<and> lookupCard_result (js ''Shock'') (ScryfallResponse 200 (Inr single_faced))
       = Inr (card_of_scryfall single_faced)"
  using backImageUrl_iff_second_face_has_image [of double_faced 200 "js ''Delver''"]
    backImageUrl_iff_second_face_has_image [of single_faced 200 "js ''Shock''"]
  by (simp add: second_face_has_image_def images_on_card_or_faces_def
      face_images_have_urls_def front_image_uris_def double_faced_def
      single_faced_def backImageUrl_value face_at_def js_or_def truthy_def js_def
      resp_ok_def)

section \<open>Validation precedes recognition\<close>

lemma gemini_payloads_append:
  "gemini_payloads (xs @ ys) = gemini_payloads xs @ gemini_payloads ys"
  by (induction xs rule: gemini_payloads.induct) simp_all

lemma lookupCard_payloads:
  "gemini_payloads (calls (snd (lookupCard en n w))) = gemini_payloads (calls w)"
  by (simp add: lookupCard_def Let_def gemini_payloads_append rateLimitScryfall_calls)

lemma lookupCard_payloadsD:
  "lookupCard en n w = (r, w') \<Longrightarrow> gemini_payloads (calls w') = gemini_payloads (calls w)"
  using lookupCard_payloads [of en n w] by simp

lemma performOCR_payloadsD:
  "performOCR en i k w = (r, w') \<Longrightarrow>
   gemini_payloads (calls w') = gemini_payloads (calls w) @ [i]"
  by (auto simp: performOCR_def gemini_payloads_append)

lemma lookup_by_name_payloads:
  "gemini_payloads (calls (snd (lookup_by_name en b w))) = gemini_payloads (calls w)"
  by (auto simp: lookup_by_name_def Let_def split: field.splits prod.splits sum.splits
      dest: lookupCard_payloadsD)

lemma recognize_and_resolve_payloads:
  "set (gemini_payloads (calls (snd (recognize_and_resolve en i w))))
     \<subseteq> insert i (set (gemini_payloads (calls w)))"
  by (auto simp: recognize_and_resolve_def Let_def
      split: prod.splits sum.splits option.splits if_splits
      dest!: lookupCard_payloadsD performOCR_payloadsD)

lemma lookup_by_image_payloads:
  "x \<in> set (gemini_payloads (calls (snd (lookup_by_image en b w)))) \<Longrightarrow>
   x \<in> set (gemini_payloads (calls w)) \<or> validateImage (Buffer_from en) x"
  using recognize_and_resolve_payloads [of en _ w]
  by (auto simp: lookup_by_image_def Let_def split: field.splits if_splits)

lemma handler_world: "snd (handler en ev w) = snd (handler_try en ev w)"
  by (simp add: handler_def split: prod.splits sum.splits)

lemma handler_payloads:
  "x \<in> set (gemini_payloads (calls (snd (handler en ev w)))) \<Longrightarrow>
   x \<in> set (gemini_payloads (calls w)) \<or> validateImage (Buffer_from en) x"
  unfolding handler_world
  using lookup_by_image_payloads [of x en _ w] lookup_by_name_payloads [of en _ w]
  by (auto simp: handler_try_def split: sum.splits if_splits)

lemma invalid_image_response:
  assumes "ev_body ev = Inr b" and "\<not> endsWith (path_of ev) (js ''/lookup-by-name'')"
    and "image_field b = Str i" and "i \<noteq> []"
    and "\<not> validateImage (Buffer_from en) (strip_data_url i)"
  shows "handler en ev w = (\<lparr>statusCode = 400, body = ErrorMsg (js ''Invalid image'')\<rparr>, w)"
  using assms by (simp add: handler_def handler_try_def lookup_by_image_def)

lemma lookup_event_path: "\<not> endsWith (path_of (lookup_event url)) (js ''/lookup-by-name'')"
  by (simp add: lookup_event_def path_of_def js_or_def truthy_def endsWith_def js_def
      suffix_to_prefix)

lemma rejected_status_shows_unable:
  assumes "\<not> resp_ok (statusCode r)"
  shows "lookup_settled (performCardLookup_settled (onMessage_lookupCard (ApiResponse r))) p
         = p\<lparr>shown := Some (FallbackInput [] unable_message)\<rparr>"
  using assms
  by (simp add: onMessage_lookupCard_def lookupCardFromImage_result_def
      performCardLookup_settled_def lookup_settled_def showFallbackInput_def
      dismissOverlay_def js_or_def truthy_def js_def)

lemma invalid_image_pipeline:
  assumes "\<not> validateImage (Buffer_from en) (strip_data_url (dataUrlToBase64 url))"
  shows "pipeline_run en url w p = (p\<lparr>shown := Some (FallbackInput [] unable_message)\<rparr>, w)"
proof -
  have b: "ev_body (lookup_event url)
           = Inr \<lparr>name_field = Undefined, image_field = Str (dataUrlToBase64 url)\<rparr>"
    by (simp add: lookup_event_def)
  have "\<exists>m. handler en (lookup_event url) w = (\<lparr>statusCode = 400, body = ErrorMsg m\<rparr>, w)"
  proof (cases "dataUrlToBase64 url = []")
    case True
    then show ?thesis
      by (simp add: handler_def handler_try_def b lookup_event_path lookup_by_image_def)
  next
    case False
    show ?thesis
      using invalid_image_response [OF b lookup_event_path _ False assms, of w] by simp
  qed
  then obtain m where h: "handler en (lookup_event url) w
                          = (\<lparr>statusCode = 400, body = ErrorMsg m\<rparr>, w)" ..
  have "\<not> resp_ok (statusCode \<lparr>statusCode = 400, body = ErrorMsg m\<rparr>)"
    by (simp add: resp_ok_def)
  from rejected_status_shows_unable [OF this] h show ?thesis
    by (simp add: pipeline_run_def)
qed

text \<open>
  Claim C3. A request on the image path whose payload fails validation is answered with
  status 400 and the reason \<^verbatim>\<open>Invalid image\<close>, and the process is left as it was:
  no request to the vision service (or to any service) is issued. For every event, every
  payload the handler sends to the vision service has passed validation. Seen from the
  page, a run whose captured image fails validation ends in the error fallback (the
  prompt with the message of the \<^verbatim>\<open>catch\<close> callback), again with no outbound call.
\<close>

theorem invalid_image_never_reaches_ocr:
  "(\<forall>b i. ev_body ev = Inr b \<and> \<not> endsWith (path_of ev) (js ''/lookup-by-name'')
           \<and> image_field b = Str i \<and> i \<noteq> []
           \<and> \<not> validateImage (Buffer_from en) (strip_data_url i)
         \<longrightarrow> handler en ev w
               = (\<lparr>statusCode = 400, body = ErrorMsg (js ''Invalid image'')\<rparr>, w))
   \<and> (\<forall>x \<in> set (gemini_payloads (calls (snd (handler en ev w)))).
         x \<in> set (gemini_payloads (calls w)) \<or> validateImage (Buffer_from en) x)
   \<and> (\<not> validateImage (Buffer_from en) (strip_data_url (dataUrlToBase64 url))
         \<longrightarrow> pipeline_run en url w p
               = (p\<lparr>shown := Some (FallbackInput [] unable_message)\<rparr>, w))"
  using invalid_image_response [of ev _ _ en w] handler_payloads [of _ en ev w]
    invalid_image_pipeline [of en url w p]
  by blast


lemma dataUrlToBase64_samples:
  "dataUrlToBase64 url_250x120 = js ''iVBORw0KGgoAAAANSUhEUgAAAPoAAAB4''"
  "dataUrlToBase64 url_145x120 = js ''iVBORw0KGgoAAAANSUhEUgAAAJEAAAB4''"
  by (simp_all add: dataUrlToBase64_def url_250x120_def url_145x120_def js_def)

lemma strip_data_url_samples:
  "strip_data_url (js ''iVBORw0KGgoAAAANSUhEUgAAAPoAAAB4'') = js ''iVBORw0KGgoAAAANSUhEUgAAAPoAAAB4''"
  "strip_data_url (js ''iVBORw0KGgoAAAANSUhEUgAAAJEAAAB4'') = js ''iVBORw0KGgoAAAANSUhEUgAAAJEAAAB4''"
  "strip_data_url url_250x120 = js ''iVBORw0KGgoAAAANSUhEUgAAAPoAAAB4''"
  by (simp_all add: strip_data_url_def url_250x120_def js_def is_word_char_def is_lower_def
      is_upper_def is_digit_def)

lemma validateImage_samples:
  "validateImage (Buffer_from (sample_env g s)) (js ''iVBORw0KGgoAAAANSUhEUgAAAPoAAAB4'')"
  "\<not> validateImage (Buffer_from (sample_env g s)) (js ''iVBORw0KGgoAAAANSUhEUgAAAJEAAAB4'')"
  by (simp_all add: validateImage_def validateImage_try_def sample_env_def js_def
      png_header_250x120_def readUInt32BE_def EXPECTED_WIDTH_def EXPECTED_HEIGHT_def)

theorem invalid_image_never_reaches_ocr_witness:
  "\<not> validateImage (Buffer_from (sample_env (gemini_says (js ''Shock'')) (ScryfallResponse 200 (Inr single_faced))))
       (strip_data_url (dataUrlToBase64 url_145x120))
   \<and> handler (sample_env (gemini_says (js ''Shock'')) (ScryfallResponse 200 (Inr single_faced)))
        (lookup_event url_145x120) (start_world 1000)
      = (\<lparr>statusCode = 400, body = ErrorMsg (js ''Invalid image'')\<rparr>, start_world 1000)
   \<and> gemini_payloads (calls (snd (handler
        (sample_env (gemini_says (js ''Shock'')) (ScryfallResponse 200 (Inr single_faced)))
        (lookup_event url_145x120) (start_world 1000)))) = []
   \<and> pipeline_run (sample_env (gemini_says (js ''Shock'')) (ScryfallResponse 200 (Inr single_faced)))
        url_145x120 (start_world 1000) (handleCardLookup idle_page)
      = ((handleCardLookup idle_page)\<lparr>shown := Some (FallbackInput [] unable_message)\<rparr>,
         start_world 1000)"
proof -
  let ?en = "sample_env (gemini_says (js ''Shock'')) (ScryfallResponse 200 (Inr single_faced))"
  have v: "\<not> validateImage (Buffer_from ?en) (strip_data_url (dataUrlToBase64 url_145x120))"
    by (simp add: dataUrlToBase64_samples strip_data_url_samples validateImage_samples)
  have b: "ev_body (lookup_event url_145x120)
           = Inr \<lparr>name_field = Undefined, image_field = Str (dataUrlToBase64 url_145x120)\<rparr>"
    by (simp add: lookup_event_def)
  have ne: "dataUrlToBase64 url_145x120 \<noteq> []"
    by (simp add: dataUrlToBase64_samples js_def)
  show ?thesis
    using invalid_image_never_reaches_ocr
      [of "lookup_event url_145x120" ?en "start_world 1000" url_145x120
          "handleCardLookup idle_page"]
      v b ne lookup_event_path [of url_145x120]
    by (simp add: start_world_def)
qed

section \<open>The handler's catch\<close>

lemma str_includes_sublist: "str_includes s sub = sublist sub s"
  by (induction s) (simp_all add: sublist_Cons_right)

lemma str_includes_append: "str_includes t sub \<Longrightarrow> str_includes (a @ t) sub"
  unfolding str_includes_sublist sublist_def
proof -
  assume "\<exists>ps ss. t = ps @ sub @ ss"
  then obtain ps ss where "t = ps @ sub @ ss" by blast
  then have "a @ t = (a @ ps) @ sub @ ss" by simp
  then show "\<exists>ps ss. a @ t = ps @ sub @ ss" by blast
qed

lemma card_not_found_message:
  "str_includes (js ''Card not found: \"'' @ n @ js ''\"'') (js ''not found'')"
proof -
  have "js ''Card not found: \"'' @ n @ js ''\"''
        = js ''Card '' @ js ''not found'' @ (js '': \"'' @ n @ js ''\"'')"
    by (simp add: js_def)
  then show ?thesis
    unfolding str_includes_sublist sublist_def by blast
qed

lemma ocr_error_reaches_catch:
  assumes "ev_body ev = Inr b" and "\<not> endsWith (path_of ev) (js ''/lookup-by-name'')"
    and "image_field b = Str i" and "i \<noteq> []"
    and "validateImage (Buffer_from en) (strip_data_url i)"
    and "GEMINI_API_KEY en = Some k" and "k \<noteq> []"
    and "performOCR en (strip_data_url i) k w = (Inl m, w1)"
  shows "handler_try en ev w = (Inl m, w1)"
  using assms
  by (simp add: handler_try_def lookup_by_image_def recognize_and_resolve_def)

lemma scryfall_404_by_name:
  assumes "ev_body ev = Inr b" and "endsWith (path_of ev) (js ''/lookup-by-name'')"
    and "name_field b = Str n" and "cleanCardName n \<noteq> []"
    and "scryfall en (cleanCardName n) = ScryfallResponse 404 j"
  shows "fst (handler en ev w) = found_false"
proof -
  from assms(4) have n: "n \<noteq> []" by (auto simp: cleanCardName_def)
  have "fst (lookupCard en (cleanCardName n) w)
        = Inl (js ''Card not found: \"'' @ cleanCardName n @ js ''\"'')"
    using assms(5) by (simp add: lookupCard_def Let_def lookupCard_result_def resp_ok_def)
  then show ?thesis
    using assms n card_not_found_message [of "cleanCardName n"]
    by (auto simp: handler_def handler_try_def lookup_by_name_def Let_def
        split: prod.splits sum.splits)
qed

lemma gemini_404_message:
  assumes "str_includes eb (js ''not found'')"
  shows "\<exists>m. performOCR_result (GeminiResponse 404 eb j) = Inl m
             \<and> str_includes m (js ''not found'')"
proof -
  have "performOCR_result (GeminiResponse 404 eb j)
        = Inl ((js ''Gemini API error: '' @ show_nat 404 @ js '' - '') @ eb)"
    by (simp add: performOCR_result_def resp_ok_def)
  then show ?thesis using str_includes_append [OF assms] by blast
qed

text \<open>
  Claim C10. Whatever the \<^verbatim>\<open>try\<close> block of the handler throws, the handler answers
  200 with \<^verbatim>\<open>{found: false}\<close> when the message contains \<^verbatim>\<open>not found\<close>, and 500
  with the message otherwise. A 404 of the card database throws such a message, and so a
  lookup of an unknown name is answered 200 \<^verbatim>\<open>{found: false}\<close>. An error of the
  recognition stage reaches the same \<^verbatim>\<open>catch\<close>: when its message contains
  \<^verbatim>\<open>not found\<close> (as for a 404 of the vision service whose body contains these words),
  the answer is the very same 200 \<^verbatim>\<open>{found: false}\<close>.
\<close>

theorem not_found_message_gives_found_false:
  "(\<forall>m w'. handler_try en ev w = (Inl m, w') \<longrightarrow>
       handler en ev w
       = (if str_includes m (js ''not found'') then \<lparr>statusCode = 200, body = NotFound\<rparr>
          else \<lparr>statusCode = 500, body = ErrorMsg m\<rparr>, w'))
   \<and> (\<forall>b n j. ev_body ev = Inr b \<and> endsWith (path_of ev) (js ''/lookup-by-name'')
         \<and> name_field b = Str n \<and> cleanCardName n \<noteq> []
         \<and> scryfall en (cleanCardName n) = ScryfallResponse 404 j
       \<longrightarrow> fst (handler en ev w) = \<lparr>statusCode = 200, body = NotFound\<rparr>)
   \<and> (\<forall>b i k m w1. ev_body ev = Inr b \<and> \<not> endsWith (path_of ev) (js ''/lookup-by-name'')
         \<and> image_field b = Str i \<and> i \<noteq> []
         \<and> validateImage (Buffer_from en) (strip_data_url i)
         \<and> GEMINI_API_KEY en = Some k \<and> k \<noteq> []
         \<and> performOCR en (strip_data_url i) k w = (Inl m, w1)
         \<and> str_includes m (js ''not found'')
       \<longrightarrow> handler en ev w = (\<lparr>statusCode = 200, body = NotFound\<rparr>, w1))
   \<and> (\<forall>eb j. str_includes eb (js ''not found'') \<longrightarrow>
         (\<exists>m. performOCR_result (GeminiResponse 404 eb j) = Inl m
              \<and> str_includes m (js ''not found'')))"
proof -
  have a: "\<forall>m w'. handler_try en ev w = (Inl m, w') \<longrightarrow>
       handler en ev w
       = (if str_includes m (js ''not found'') then \<lparr>statusCode = 200, body = NotFound\<rparr>
          else \<lparr>statusCode = 500, body = ErrorMsg m\<rparr>, w')"
    by (simp add: handler_def found_false_def)
  have b: "\<forall>b n j. ev_body ev = Inr b \<and> endsWith (path_of ev) (js ''/lookup-by-name'')
         \<and> name_field b = Str n \<and> cleanCardName n \<noteq> []
         \<and> scryfall en (cleanCardName n) = ScryfallResponse 404 j
       \<longrightarrow> fst (handler en ev w) = \<lparr>statusCode = 200, body = NotFound\<rparr>"
    using scryfall_404_by_name [of ev _ _ en _ w] by (auto simp: found_false_def)
  have c: "\<forall>b i k m w1. ev_body ev = Inr b \<and> \<not> endsWith (path_of ev) (js ''/lookup-by-name'')
         \<and> image_field b = Str i \<and> i \<noteq> []
         \<and> validateImage (Buffer_from en) (strip_data_url i)
         \<and> GEMINI_API_KEY en = Some k \<and> k \<noteq> []
         \<and> performOCR en (strip_data_url i) k w = (Inl m, w1)
         \<and> str_includes m (js ''not found'')
       \<longrightarrow> handler en ev w = (\<lparr>statusCode = 200, body = NotFound\<rparr>, w1)"
  proof (intro allI impI)
    fix b i k m w1
    assume h: "ev_body ev = Inr b \<and> \<not> endsWith (path_of ev) (js ''/lookup-by-name'')
         \<and> image_field b = Str i \<and> i \<noteq> []
         \<and> validateImage (Buffer_from en) (strip_data_url i)
         \<and> GEMINI_API_KEY en = Some k \<and> k \<noteq> []
         \<and> performOCR en (strip_data_url i) k w = (Inl m, w1)
         \<and> str_includes m (js ''not found'')"
    then have "handler_try en ev w = (Inl m, w1)"
      using ocr_error_reaches_catch [of ev b i en k w m w1] by blast
    with h show "handler en ev w = (\<lparr>statusCode = 200, body = NotFound\<rparr>, w1)"
      by (simp add: handler_def found_false_def)
  qed
  have d: "\<forall>eb j. str_includes eb (js ''not found'') \<longrightarrow>
         (\<exists>m. performOCR_result (GeminiResponse 404 eb j) = Inl m
              \<and> str_includes m (js ''not found''))"
    using gemini_404_message by blast
  from a b c d show ?thesis by blast
qed


lemma lookup_event_body:
  "ev_body (lookup_event url)
   = Inr \<lparr>name_field = Undefined, image_field = Str (dataUrlToBase64 url)\<rparr>"
  by (simp add: lookup_event_def)

lemma sample_handler_try:
  "handler_try (sample_env g s) (lookup_event url_250x120) w
   = recognize_and_resolve (sample_env g s) (js ''iVBORw0KGgoAAAANSUhEUgAAAPoAAAB4'') w"
proof -
  have ne: "js ''iVBORw0KGgoAAAANSUhEUgAAAPoAAAB4'' \<noteq> []" by (simp add: js_def)
  show ?thesis
    using ne
    by (simp add: handler_try_def lookup_event_path lookup_event_body lookup_by_image_def
        dataUrlToBase64_samples strip_data_url_samples validateImage_samples)
qed

lemma sample_env_sel:
  "GEMINI_API_KEY (sample_env g s) = Some (js ''key'')"
  "gemini (sample_env g s) k i = g"
  "scryfall (sample_env g s) n = s"
  "timer_late (sample_env g s) = 0"
  "gemini_ms (sample_env g s) = 400"
  "scryfall_ms (sample_env g s) = 30"
  by (simp_all add: sample_env_def)

lemma key_not_empty: "js ''key'' \<noteq> []"
  by (simp add: js_def)

lemma sample_performOCR:
  "performOCR (sample_env g s) i (js ''key'') w
   = (performOCR_result g,
      w\<lparr>clock := clock w + 400, calls := calls w @ [GeminiCall (clock w) i]\<rparr>)"
  by (simp add: performOCR_def sample_env_sel)

lemma sample_recognize_error:
  assumes "performOCR_result g = Inl m"
  shows "recognize_and_resolve (sample_env g s) i w
         = (Inl m, w\<lparr>clock := clock w + 400, calls := calls w @ [GeminiCall (clock w) i]\<rparr>)"
  using assms
  by (simp add: recognize_and_resolve_def sample_env_sel key_not_empty sample_performOCR)

lemma sample_ocr_error:
  assumes "performOCR_result g = Inl m"
  shows "handler_try (sample_env g s) (lookup_event url_250x120) (start_world 1000)
         = (Inl m, \<lparr>clock = 1400, lastScryfallCall = 0,
                    calls = [GeminiCall 1000 (js ''iVBORw0KGgoAAAANSUhEUgAAAPoAAAB4'')]\<rparr>)"
  unfolding sample_handler_try sample_recognize_error [OF assms]
  by (simp add: start_world_def)

lemma sample_recognize_name:
  assumes "performOCR_result g = Inr (Some t)" and "t \<noteq> []"
    and "cleanCardName t = n" and "n \<noteq> []"
  shows "recognize_and_resolve (sample_env g s) i w
         = (case lookupCard (sample_env g s) n
                  (w\<lparr>clock := clock w + 400, calls := calls w @ [GeminiCall (clock w) i]\<rparr>) of
              (Inl m, w2) \<Rightarrow> (Inl m, w2)
            | (Inr c, w2) \<Rightarrow> (Inr \<lparr>statusCode = 200, body = Found c (Some n)\<rparr>, w2))"
  using assms
  by (simp add: recognize_and_resolve_def sample_env_sel key_not_empty sample_performOCR)

lemma sample_lookupCard_404:
  "lookupCard (sample_env g (ScryfallResponse 404 j)) n
      \<lparr>clock = 1400, lastScryfallCall = 0, calls = cs\<rparr>
   = (Inl (js ''Card not found: \"'' @ n @ js ''\"''),
      \<lparr>clock = 1430, lastScryfallCall = 1400, calls = cs @ [ScryfallCall 1400 n]\<rparr>)"
  by (simp add: lookupCard_def Let_def sample_env_sel rateLimitScryfall_def
      SCRYFALL_RATE_LIMIT_MS_def lookupCard_result_def resp_ok_def)

lemma show_nat_404: "show_nat 404 = js ''404''"
  by (simp add: show_nat.simps js_def)

lemma gemini_model_not_found:
  "performOCR_result (GeminiResponse 404 (js ''models/gemini-2.5-flash-lite is not found'') j)
   = Inl (js ''Gemini API error: 404 - models/gemini-2.5-flash-lite is not found'')"
  by (simp add: performOCR_result_def resp_ok_def show_nat_404) (simp add: js_def)

lemma gemini_rate_limited:
  "performOCR_result (GeminiResponse 429 eb j) = Inl (js ''Rate limit exceeded'')"
  by (simp add: performOCR_result_def resp_ok_def)

lemma name_event_parts:
  "ev_body (name_event n) = Inr \<lparr>name_field = Str n, image_field = Undefined\<rparr>"
  "endsWith (path_of (name_event n)) (js ''/lookup-by-name'')"
  by (simp_all add: name_event_def path_of_def js_or_def truthy_def endsWith_def js_def)

lemma cleanCardName_Xyzzy: "cleanCardName (js ''Xyzzy'') = js ''Xyzzy''"
  by (simp add: cleanCardName_def js_def trim_def is_space_def kept_def is_lower_def
      is_upper_def is_digit_def)

theorem not_found_message_gives_found_false_witness:
  "handler (sample_env
        (GeminiResponse 404 (js ''models/gemini-2.5-flash-lite is not found'') (Inl []))
        (ScryfallResponse 404 (Inl [])))
      (lookup_event url_250x120) (start_world 1000)
    = (\<lparr>statusCode = 200, body = NotFound\<rparr>,
       \<lparr>clock = 1400, lastScryfallCall = 0,
        calls = [GeminiCall 1000 (js ''iVBORw0KGgoAAAANSUhEUgAAAPoAAAB4'')]\<rparr>)
   \<and> fst (handler (sample_env
        (GeminiResponse 404 (js ''models/gemini-2.5-flash-lite is not found'') (Inl []))
        (ScryfallResponse 404 (Inl [])))
      (name_event (js ''Xyzzy'')) (start_world 1000))
    = \<lparr>statusCode = 200, body = NotFound\<rparr>
   \<and> handler (sample_env (GeminiResponse 429 [] (Inl [])) (ScryfallResponse 404 (Inl [])))
      (lookup_event url_250x120) (start_world 1000)
    = (\<lparr>statusCode = 500, body = ErrorMsg (js ''Rate limit exceeded'')\<rparr>,
       \<lparr>clock = 1400, lastScryfallCall = 0,
        calls = [GeminiCall 1000 (js ''iVBORw0KGgoAAAANSUhEUgAAAPoAAAB4'')]\<rparr>)"
proof -
  let ?g = "GeminiResponse 404 (js ''models/gemini-2.5-flash-lite is not found'') (Inl [])"
  let ?s = "ScryfallResponse 404 (Inl [])"
  let ?w1 = "\<lparr>clock = 1400, lastScryfallCall = 0,
              calls = [GeminiCall 1000 (js ''iVBORw0KGgoAAAANSUhEUgAAAPoAAAB4'')]\<rparr>"
  have inc: "str_includes (js ''Gemini API error: 404 - models/gemini-2.5-flash-lite is not found'')
               (js ''not found'')"
    by (simp add: js_def)
  have ninc: "\<not> str_includes (js ''Rate limit exceeded'') (js ''not found'')"
    by (simp add: js_def)
  have t1: "handler_try (sample_env ?g ?s) (lookup_event url_250x120) (start_world 1000)
            = (Inl (js ''Gemini API error: 404 - models/gemini-2.5-flash-lite is not found''), ?w1)"
    by (rule sample_ocr_error [OF gemini_model_not_found])
  have t3: "handler_try (sample_env (GeminiResponse 429 [] (Inl [])) ?s)
              (lookup_event url_250x120) (start_world 1000)
            = (Inl (js ''Rate limit exceeded''), ?w1)"
    by (rule sample_ocr_error [OF gemini_rate_limited])
  have sc: "scryfall (sample_env ?g ?s) (cleanCardName (js ''Xyzzy'')) = ScryfallResponse 404 (Inl [])"
    by (simp add: sample_env_def)
  have ne: "cleanCardName (js ''Xyzzy'') \<noteq> []"
    unfolding cleanCardName_Xyzzy by (simp add: js_def)
  show ?thesis
    using not_found_message_gives_found_false
        [of "sample_env ?g ?s" "lookup_event url_250x120" "start_world 1000"]
      not_found_message_gives_found_false
        [of "sample_env ?g ?s" "name_event (js ''Xyzzy'')" "start_world 1000"]
      not_found_message_gives_found_false
        [of "sample_env (GeminiResponse 429 [] (Inl [])) ?s" "lookup_event url_250x120"
            "start_world 1000"]
      t1 t3 inc ninc sc ne name_event_parts [of "js ''Xyzzy''"]
    by simp
qed

section \<open>A name that the card database does not know\<close>

lemma cleanCardName_Lightnig: "cleanCardName (js ''Lightnig Bolt'') = js ''Lightnig Bolt''"
  by (simp add: cleanCardName_def js_def trim_def is_space_def kept_def is_lower_def
      is_upper_def is_digit_def)

lemma gemini_says_Lightnig:
  "performOCR_result (gemini_says (js ''Lightnig Bolt'')) = Inr (Some (js ''Lightnig Bolt''))"
  by (simp add: performOCR_result_def gemini_says_def resp_ok_def truthy_def js_def trim_def
      is_space_def)

text \<open>
  Claim C7 says that when the recognition detects a name and the card database does not
  know it, the page shows the fallback prompt (not the error fallback) pre-filled with
  the detected text. The run below has the vision service read \<^verbatim>\<open>Lightnig Bolt\<close> and
  the card database answer 404. The backend issues both requests and answers 200 with
  \<^verbatim>\<open>{found: false}\<close>, without the detected name (only its answer for a found card
  carries \<^verbatim>\<open>detectedName\<close>); the page shows the fallback prompt with the message of the
  no-match case, and its input is empty.
\<close>

theorem not_found_prompt_is_not_prefilled:
  "handler (sample_env (gemini_says (js ''Lightnig Bolt'')) (ScryfallResponse 404 (Inl [])))
      (lookup_event url_250x120) (start_world 1000)
    = (\<lparr>statusCode = 200, body = NotFound\<rparr>,
       \<lparr>clock = 1430, lastScryfallCall = 1400,
        calls = [GeminiCall 1000 (js ''iVBORw0KGgoAAAANSUhEUgAAAPoAAAB4''),
                 ScryfallCall 1400 (js ''Lightnig Bolt'')]\<rparr>)
   \<and> shown (fst (pipeline_run
        (sample_env (gemini_says (js ''Lightnig Bolt'')) (ScryfallResponse 404 (Inl [])))
        url_250x120 (start_world 1000) (handleCardLookup idle_page)))
     = Some (FallbackInput [] no_card_message)"
proof -
  let ?en = "sample_env (gemini_says (js ''Lightnig Bolt'')) (ScryfallResponse 404 (Inl []))"
  let ?w2 = "\<lparr>clock = 1430, lastScryfallCall = 1400,
              calls = [GeminiCall 1000 (js ''iVBORw0KGgoAAAANSUhEUgAAAPoAAAB4''),
                       ScryfallCall 1400 (js ''Lightnig Bolt'')]\<rparr>"
  have ne: "js ''Lightnig Bolt'' \<noteq> []" by (simp add: js_def)
  have t: "handler_try ?en (lookup_event url_250x120) (start_world 1000)
           = (Inl (js ''Card not found: \"'' @ js ''Lightnig Bolt'' @ js ''\"''), ?w2)"
    unfolding sample_handler_try
      sample_recognize_name [OF gemini_says_Lightnig ne cleanCardName_Lightnig ne]
    by (simp add: start_world_def sample_lookupCard_404)
  have h: "handler ?en (lookup_event url_250x120) (start_world 1000)
           = (\<lparr>statusCode = 200, body = NotFound\<rparr>, ?w2)"
    using card_not_found_message [of "js ''Lightnig Bolt''"]
    by (simp add: handler_def t found_false_def)
  have "shown (fst (pipeline_run ?en url_250x120 (start_world 1000) (handleCardLookup idle_page)))
        = Some (FallbackInput [] no_card_message)"
    by (simp add: pipeline_run_def h onMessage_lookupCard_def lookupCardFromImage_result_def
        resp_ok_def performCardLookup_settled_def lookup_settled_def showFallbackInput_def
        dismissOverlay_def js_or_def truthy_def)
  with h show ?thesis by simp
qed

section \<open>The capture rectangle at the edges of the viewport\<close>

text \<open>
  Claim C8 says that the capture rectangle is shifted, never clipped, so that the canvas
  always has 250 by 120 pixels. At the left edge the source does shift the rectangle: the
  start is clamped to 0 and the end is the start plus the region width. At the right edge
  it clamps the end and keeps the start, which clips the rectangle: with the cursor at
  x = 990 in a viewport 1000 pixels wide the rectangle runs from 927.5 to 1000 and the
  canvas is 145 pixels wide, a size the backend's validator rejects.
\<close>

theorem capture_is_clipped_at_right_edge:
  "captureRegionAroundCursor \<lparr>innerWidth = 1000, innerHeight = 800\<rparr> 990 400 125 60
     = \<lparr>startX = 1855 / 2, startY = 370, endX = 1000, endY = 430,
        canvas_width = 145, canvas_height = 120\<rparr>
   \<and> captureRegionAroundCursor \<lparr>innerWidth = 1000, innerHeight = 800\<rparr> 10 400 125 60
     = \<lparr>startX = 0, startY = 370, endX = 125, endY = 430,
        canvas_width = 250, canvas_height = 120\<rparr>
   \<and> captureRegionAroundCursor \<lparr>innerWidth = 1000, innerHeight = 800\<rparr> 500 790 125 60
     = \<lparr>startX = 875 / 2, startY = 760, endX = 1125 / 2, endY = 800,
        canvas_width = 250, canvas_height = 80\<rparr>"
  by (simp add: captureRegionAroundCursor_def Let_def)


text \<open>
  What the source does for a cursor inside the viewport: the rectangle stays inside the
  viewport, and the canvas has the full width exactly when the rectangle that starts at
  the clamped start still fits before the right edge.
\<close>

lemma capture_width_inside_viewport:
  assumes "0 \<le> cursorX" and "cursorX \<le> innerWidth window" and "0 \<le> rw"
  shows "0 \<le> startX (captureRegionAroundCursor window cursorX cursorY rw rh)
    \<and> startX (captureRegionAroundCursor window cursorX cursorY rw rh)
        \<le> endX (captureRegionAroundCursor window cursorX cursorY rw rh)
    \<and> endX (captureRegionAroundCursor window cursorX cursorY rw rh) \<le> of_int (innerWidth window)
    \<and> canvas_width (captureRegionAroundCursor window cursorX cursorY rw rh) \<le> 2 * rw
    \<and> (canvas_width (captureRegionAroundCursor window cursorX cursorY rw rh) = 2 * rw)
        = (max 0 (of_int cursorX - rw / 2) + rw \<le> of_int (innerWidth window))"
proof -
  have a: "(0::rat) \<le> of_int cursorX" using assms(1) by simp
  have b: "(of_int cursorX :: rat) \<le> of_int (innerWidth window)" using assms(2) by simp
  show ?thesis
    using a b assms(3)
    by (auto simp: captureRegionAroundCursor_def Let_def max_def min_def field_simps)
qed

section \<open>Dismissal while a lookup is in flight\<close>

lemma lookup_settled_shows: "shown (lookup_settled r p) \<noteq> None"
  by (simp add: lookup_settled_def showCardOverlay_def showFallbackInput_def dismissOverlay_def
      split: lookup_outcome.splits option.splits)

text \<open>
  Claim C9 says that after a dismissal the result of the lookup in flight is dropped when
  it arrives. The content script keeps no record of the dismissal: the Escape key removes
  the spinner, and when the promise settles its callback renders the result all the same.
  Here the backtick key starts a lookup, the Escape key dismisses the spinner (the page
  shows nothing, one lookup is pending), and the result that then arrives puts the card
  overlay, or the fallback prompt, on the page.
\<close>

theorem stale_result_is_rendered:
  "shown (page_step (page_step idle_page (BacktickKey False)) EscapeKey) = None
   \<and> in_flight (page_step (page_step idle_page (BacktickKey False)) EscapeKey) = 1
   \<and> shown (page_step (page_step (page_step idle_page (BacktickKey False)) EscapeKey)
         (LookupSettled (Resolved True (Some (card_of_scryfall single_faced))
                           (Some (js ''Shock'')))))
     = Some (CardOverlay (card_of_scryfall single_faced))
   \<and> shown (page_step (page_step (page_step idle_page (BacktickKey False)) EscapeKey)
         (LookupSettled (Resolved False None None)))
     = Some (FallbackInput [] no_card_message)"
  by (simp add: page_step_def idle_page_def handleCardLookup_def showLoadingSpinner_def
      dismissOverlay_def lookup_settled_def showCardOverlay_def showFallbackInput_def
      card_of_scryfall_def single_faced_def Let_def js_or_def truthy_def js_def)

text \<open>
  Claim C9 as amended. A dismissal (the Escape key, or a click on the backdrop or the
  close button) while a lookup is in flight removes the overlay at once and leaves the
  lookup pending; when its result arrives, the page becomes exactly what it would have
  become without the dismissal, and it shows an overlay: the result is rendered, not
  dropped.
\<close>

theorem dismissal_keeps_lookup_pending:
  "0 < in_flight p \<and> (d = EscapeKey \<or> d = DismissClick) \<longrightarrow>
     shown (page_step p d) = None
     \<and> in_flight (page_step p d) = in_flight p
     \<and> page_step (page_step p d) (LookupSettled r) = page_step p (LookupSettled r)
     \<and> shown (page_step (page_step p d) (LookupSettled r)) \<noteq> None"
proof (intro impI)
  assume h: "0 < in_flight p \<and> (d = EscapeKey \<or> d = DismissClick)"
  then have d: "page_step p d = p\<lparr>shown := None\<rparr>"
    by (auto simp: page_step_def dismissOverlay_def)
  have s: "page_step (p\<lparr>shown := None\<rparr>) (LookupSettled r) = page_step p (LookupSettled r)"
    using h
    by (simp add: page_step_def lookup_settled_def showCardOverlay_def showFallbackInput_def
        dismissOverlay_def split: lookup_outcome.splits option.splits)
  have n: "shown (page_step p (LookupSettled r)) \<noteq> None"
    using h by (simp add: page_step_def lookup_settled_shows)
  show "shown (page_step p d) = None
     \<and> in_flight (page_step p d) = in_flight p
     \<and> page_step (page_step p d) (LookupSettled r) = page_step p (LookupSettled r)
     \<and> shown (page_step (page_step p d) (LookupSettled r)) \<noteq> None"
    unfolding d s using n by simp
qed

theorem dismissal_keeps_lookup_pending_witness:
  "0 < in_flight (page_step idle_page (BacktickKey False))
   \<and> shown (page_step idle_page (BacktickKey False))
       = Some (LoadingSpinner (js ''Looking up card...''))
   \<and> shown (page_step (page_step idle_page (BacktickKey False)) EscapeKey) = None
   \<and> in_flight (page_step (page_step idle_page (BacktickKey False)) EscapeKey) = 1
   \<and> page_step (page_step (page_step idle_page (BacktickKey False)) EscapeKey)
        (LookupSettled (Rejected (js ''Lookup failed'')))
     = \<lparr>shown = Some (FallbackInput [] unable_message), in_flight = 0\<rparr>"
  using dismissal_keeps_lookup_pending
    [of "page_step idle_page (BacktickKey False)" EscapeKey "Rejected (js ''Lookup failed'')"]
  by (simp add: page_step_def idle_page_def handleCardLookup_def showLoadingSpinner_def
      dismissOverlay_def lookup_settled_def showFallbackInput_def js_or_def truthy_def js_def)

end
